theory Spec2Isabelle
  imports Complex_Main
begin

section \<open>JavaScript values handled by server.js\<close>

text \<open>
  The handler of \<^verbatim>\<open>mqttClient.on('message', ...)\<close> in server.js never computes with a
  number: it converts, compares with \<open>0\<close>, \<open>1\<close> and \<open>NaN\<close>, and stores. A number is
  therefore a tagged value; the two zeros of a double are one value here, which \<open>===\<close>,
  \<open>isNaN\<close> and \<open>JSON.stringify\<close> do not tell apart either.
\<close>

datatype jsnum = NaN | PosInf | NegInf | Fin rat

text \<open>
  What \<^verbatim>\<open>JSON.parse\<close> returns, and what the record \<^verbatim>\<open>latestAirData\<close> holds. The
  list of a \<open>JObj\<close> holds the own properties of the object, each name once; a property
  that is not in the list reads as \<^verbatim>\<open>undefined\<close>, written \<open>None\<close>.
\<close>

datatype json =
    JNull
  | JBool bool
  | JNum jsnum
  | JStr string
  | JArr "json list"
  | JObj "(string \<times> json) list"

datatype exn = SyntaxError | TypeError

text \<open>
  The built-in functions of the platform that the handler calls on text are parameters:
  \<^verbatim>\<open>String.prototype.trim\<close> (which strips the white space and the line terminators
  of ECMAScript, the no-break space and the byte order mark among them),
  \<^verbatim>\<open>JSON.parse\<close> (\<open>None\<close> when it throws a SyntaxError), the conversion of a string
  to a number that \<^verbatim>\<open>Number(s)\<close> performs, and the conversion of a number to a string.
\<close>

record platform =
  String_trim :: "string \<Rightarrow> string"
  JSON_parse :: "string \<Rightarrow> json option"
  StringToNumber :: "string \<Rightarrow> jsnum"
  NumberToString :: "jsnum \<Rightarrow> string"

definition isNaN :: "jsnum \<Rightarrow> bool" where
  "isNaN n = (n = NaN)"

definition and_then :: "exn + 'a \<Rightarrow> ('a \<Rightarrow> exn + 'b) \<Rightarrow> exn + 'b" where
  "and_then r f = (case r of Inl e \<Rightarrow> Inl e | Inr x \<Rightarrow> f x)"

text \<open>
  \<^verbatim>\<open>obj.key\<close>: reading a property of \<^verbatim>\<open>null\<close> throws a TypeError; a number, a string,
  a boolean and an array have none of the seven keys the handler reads.
\<close>

fun get_prop :: "json \<Rightarrow> string \<Rightarrow> exn + json option" where
  "get_prop JNull k = Inl TypeError"
| "get_prop (JObj kvs) k = Inr (map_of kvs k)"
| "get_prop v k = Inr None"

text \<open>
  \<^verbatim>\<open>String(v)\<close>. An array is joined with commas, \<^verbatim>\<open>null\<close> elements giving the empty
  string. A parsed object has no callable property of its own, so an object with an own
  property \<^verbatim>\<open>toString\<close> cannot be converted to a primitive (TypeError); any other
  object is \<^verbatim>\<open>[object Object]\<close>.
\<close>

fun ToString :: "platform \<Rightarrow> json \<Rightarrow> exn + string"
  and join :: "platform \<Rightarrow> json list \<Rightarrow> exn + string" where
  "ToString P JNull = Inr ''null''"
| "ToString P (JBool b) = Inr (if b then ''true'' else ''false'')"
| "ToString P (JNum n) = Inr (NumberToString P n)"
| "ToString P (JStr s) = Inr s"
| "ToString P (JArr xs) = join P xs"
| "ToString P (JObj kvs) =
     (if map_of kvs ''toString'' \<noteq> None then Inl TypeError else Inr ''[object Object]'')"
| "join P [] = Inr []"
| "join P (x # xs) =
     and_then (if x = JNull then Inr [] else ToString P x) (\<lambda>a.
     and_then (join P xs) (\<lambda>b.
     Inr (if xs = [] then a else a @ '','' @ b)))"

text \<open>\<^verbatim>\<open>Number(v)\<close>: an array or an object is converted through its string.\<close>

fun ToNumber :: "platform \<Rightarrow> json \<Rightarrow> exn + jsnum" where
  "ToNumber P JNull = Inr (Fin 0)"
| "ToNumber P (JBool b) = Inr (if b then Fin 1 else Fin 0)"
| "ToNumber P (JNum n) = Inr n"
| "ToNumber P (JStr s) = Inr (StringToNumber P s)"
| "ToNumber P v = and_then (ToString P v) (\<lambda>s. Inr (StringToNumber P s))"

text \<open>
  \<^verbatim>\<open>s.toUpperCase()\<close> on the letters a to z. The handler only compares the result
  with \<^verbatim>\<open>'ON'\<close>, and no other character has \<open>O\<close> or \<open>N\<close> as its upper case.
\<close>

definition upper_char :: "char \<Rightarrow> char" where
  "upper_char c =
     (case map_of (zip ''abcdefghijklmnopqrstuvwxyz'' ''ABCDEFGHIJKLMNOPQRSTUVWXYZ'') c of
        Some u \<Rightarrow> u
      | None \<Rightarrow> c)"

definition toUpperCase :: "string \<Rightarrow> string" where
  "toUpperCase s = map upper_char s"

definition startsWith :: "string \<Rightarrow> string \<Rightarrow> bool" where
  "startsWith s p = (take (length p) s = p)"

section \<open>Configuration and the record of the latest readings\<close>

definition TOPIC_TEMP :: string where "TOPIC_TEMP = ''esp32/telemetry''"
definition TOPIC_HUM :: string where "TOPIC_HUM = ''esp32/state''"
definition TOPIC_CO2 :: string where "TOPIC_CO2 = ''esp32/control/cmd''"

text \<open>
  \<^verbatim>\<open>latestAirData\<close> is one JavaScript object: the declared fields, \<^verbatim>\<open>relay_pin\<close>
  (added by the first write) and the entries written under a topic name are properties
  of the same object, so the store is one map from property names.
\<close>

type_synonym store = "string \<rightharpoonup> json"

definition latestAirData :: store where
  "latestAirData = Map.empty(
     ''temperature'' \<mapsto> JNull,
     ''humidity'' \<mapsto> JNull,
     ''co2_eq_ppm'' \<mapsto> JNull,
     ''timestamp'' \<mapsto> JNull,
     ''device_status'' \<mapsto> JNull,
     ''last_topic'' \<mapsto> JNull)"

text \<open>
  \<^verbatim>\<open>latestAirData[topic] = numeric\<close>. The name \<^verbatim>\<open>__proto__\<close> is the accessor
  inherited from \<^verbatim>\<open>Object.prototype\<close>, whose setter ignores a number.
\<close>

definition set_computed :: "store \<Rightarrow> string \<Rightarrow> json \<Rightarrow> store" where
  "set_computed s k v = (if k = ''__proto__'' then s else s(k \<mapsto> v))"

text \<open>The subscription \<^verbatim>\<open>['home/air/#', 'esp32/#']\<close>: the topics the broker delivers.\<close>

definition subscribed :: "string \<Rightarrow> bool" where
  "subscribed topic \<longleftrightarrow>
     topic = ''home/air'' \<or> startsWith topic ''home/air/'' \<or>
     topic = ''esp32'' \<or> startsWith topic ''esp32/''"

section \<open>The message handler\<close>

text \<open>The five log lines of the handler, one for each way it ends.\<close>

datatype outcome =
    UpdatedEsp32
  | UpdatedEsp32Numeric
  | IgnoredEsp32
  | UpdatedNumeric
  | IgnoredNonNumeric

definition map_temperature :: "platform \<Rightarrow> json \<Rightarrow> store \<Rightarrow> exn + store" where
  "map_temperature P obj s =
     and_then (get_prop obj ''temperature'') (\<lambda>v.
       case v of
         None \<Rightarrow> Inr s
       | Some x \<Rightarrow>
           if x = JNull then Inr s
           else and_then (ToNumber P x) (\<lambda>t.
             Inr (if \<not> isNaN t then s(''temperature'' \<mapsto> JNum t) else s)))"

definition map_humidity :: "platform \<Rightarrow> json \<Rightarrow> store \<Rightarrow> exn + store" where
  "map_humidity P obj s =
     and_then (get_prop obj ''humidity'') (\<lambda>v.
       case v of
         None \<Rightarrow> Inr s
       | Some x \<Rightarrow>
           if x = JNull then Inr s
           else and_then (ToNumber P x) (\<lambda>h.
             Inr (if \<not> isNaN h then s(''humidity'' \<mapsto> JNum h) else s)))"

definition map_gas :: "platform \<Rightarrow> json \<Rightarrow> store \<Rightarrow> exn + store" where
  "map_gas P obj s =
     and_then (get_prop obj ''gas_mq135'') (\<lambda>v.
       case v of
         Some x \<Rightarrow>
           and_then (ToNumber P x) (\<lambda>g.
             Inr (if \<not> isNaN g then s(''co2_eq_ppm'' \<mapsto> JNum g) else s))
       | None \<Rightarrow>
           and_then (get_prop obj ''co2_eq_ppm'') (\<lambda>w.
             case w of
               Some y \<Rightarrow>
                 and_then (ToNumber P y) (\<lambda>g.
                   Inr (if \<not> isNaN g then s(''co2_eq_ppm'' \<mapsto> JNum g) else s))
             | None \<Rightarrow> Inr s))"

definition map_relay_pin :: "json \<Rightarrow> store \<Rightarrow> exn + store" where
  "map_relay_pin obj s =
     and_then (get_prop obj ''relay_pin'') (\<lambda>v.
       case v of
         None \<Rightarrow> Inr s
       | Some r \<Rightarrow>
           if r = JNum (Fin 1) \<or> r = JStr ''1'' \<or> r = JBool True
             then Inr (s(''relay_pin'' \<mapsto> JNum (Fin 1)))
           else if r = JNum (Fin 0) \<or> r = JStr ''0'' \<or> r = JBool False
             then Inr (s(''relay_pin'' \<mapsto> JNum (Fin 0)))
           else (case r of
                   JStr str \<Rightarrow>
                     Inr (s(''relay_pin'' \<mapsto>
                            JNum (if toUpperCase str = ''ON'' then Fin 1 else Fin 0)))
                 | _ \<Rightarrow> Inr s))"

definition map_state :: "platform \<Rightarrow> json \<Rightarrow> store \<Rightarrow> exn + store" where
  "map_state P obj s =
     and_then (get_prop obj ''state'') (\<lambda>v.
       case v of
         None \<Rightarrow> Inr s
       | Some x \<Rightarrow>
           and_then (ToString P x) (\<lambda>str.
             Inr (s(''relay_pin'' \<mapsto>
                    JNum (if toUpperCase str = ''ON'' then Fin 1 else Fin 0)))))"

definition map_status :: "platform \<Rightarrow> json \<Rightarrow> store \<Rightarrow> exn + store" where
  "map_status P obj s =
     and_then (get_prop obj ''status'') (\<lambda>v.
       case v of
         None \<Rightarrow> Inr s
       | Some x \<Rightarrow>
           and_then (ToString P x) (\<lambda>str. Inr (s(''device_status'' \<mapsto> JStr str))))"

text \<open>\<^verbatim>\<open>last_topic = topic; timestamp = new Date().toISOString()\<close>, the time as \<open>now\<close>.\<close>

definition stamp :: "string \<Rightarrow> string \<Rightarrow> store \<Rightarrow> store" where
  "stamp topic now s = s(''last_topic'' \<mapsto> JStr topic, ''timestamp'' \<mapsto> JStr now)"

text \<open>
  The statements of a block in order. A statement that throws has not written yet, so
  the block stops with the store its earlier statements left.
\<close>

fun run_steps :: "(store \<Rightarrow> exn + store) list \<Rightarrow> store \<Rightarrow> exn option \<times> store" where
  "run_steps [] s = (None, s)"
| "run_steps (f # fs) s =
     (case f s of Inl e \<Rightarrow> (Some e, s) | Inr s' \<Rightarrow> run_steps fs s')"

definition try_statements ::
  "platform \<Rightarrow> string \<Rightarrow> string \<Rightarrow> json \<Rightarrow> (store \<Rightarrow> exn + store) list" where
  "try_statements P now topic obj =
     [map_temperature P obj, map_humidity P obj, map_gas P obj,
      map_relay_pin obj, map_state P obj, map_status P obj,
      (\<lambda>s. Inr (stamp topic now s))]"

definition try_block ::
  "platform \<Rightarrow> string \<Rightarrow> string \<Rightarrow> string \<Rightarrow> store \<Rightarrow> exn option \<times> store" where
  "try_block P now topic payloadStr s =
     (case JSON_parse P payloadStr of
        None \<Rightarrow> (Some SyntaxError, s)
      | Some obj \<Rightarrow> run_steps (try_statements P now topic obj) s)"

definition catch_block ::
  "platform \<Rightarrow> string \<Rightarrow> string \<Rightarrow> string \<Rightarrow> store \<Rightarrow> (exn + outcome) \<times> store" where
  "catch_block P now topic payloadStr s =
     (case ToNumber P (JStr payloadStr) of
        Inl e \<Rightarrow> (Inl e, s)
      | Inr num \<Rightarrow>
          if \<not> isNaN num then
            (Inr UpdatedEsp32Numeric,
             stamp topic now
               (if topic = ''esp32/temperature'' then s(''temperature'' \<mapsto> JNum num)
                else if topic = ''esp32/humidity'' then s(''humidity'' \<mapsto> JNum num)
                else if topic = ''esp32/co2'' then s(''co2_eq_ppm'' \<mapsto> JNum num)
                else s))
          else (Inr IgnoredEsp32, s))"

definition on_message ::
  "platform \<Rightarrow> string \<Rightarrow> string \<Rightarrow> string \<Rightarrow> store \<Rightarrow> (exn + outcome) \<times> store" where
  "on_message P now topic messageBuffer s =
     (let payloadStr = String_trim P messageBuffer in
      if startsWith topic ''esp32/'' then
        (case try_block P now topic payloadStr s of
           (None, s') \<Rightarrow> (Inr UpdatedEsp32, s')
         | (Some err, s') \<Rightarrow> catch_block P now topic payloadStr s')
      else
        (case ToNumber P (JStr payloadStr) of
           Inl e \<Rightarrow> (Inl e, s)
         | Inr numeric \<Rightarrow>
             if \<not> isNaN numeric then
               (Inr UpdatedNumeric,
                stamp topic now
                  (if topic = TOPIC_TEMP then s(''temperature'' \<mapsto> JNum numeric)
                   else if topic = TOPIC_HUM then s(''humidity'' \<mapsto> JNum numeric)
                   else if topic = TOPIC_CO2 then s(''co2_eq_ppm'' \<mapsto> JNum numeric)
                   else set_computed s topic (JNum numeric)))
             else (Inr IgnoredNonNumeric, s)))"

text \<open>
  The handler run on a sequence of messages, each a triple of the time of its arrival,
  its topic and its payload.
\<close>

fun run :: "platform \<Rightarrow> (string \<times> string \<times> string) list \<Rightarrow> store \<Rightarrow> store" where
  "run P [] s = s"
| "run P ((now, topic, payload) # ms) s = run P ms (snd (on_message P now topic payload s))"

section \<open>The earlier copy of the handler\<close>

text \<open>
  The second source file is an earlier copy of server.js: it subscribes to
  \<^verbatim>\<open>home/air/#\<close> only, takes numeric payloads only (not trimmed), and ignores a topic
  that is none of its three constants. Its names carry the suffix \<open>_old\<close> here.
\<close>

definition TOPIC_TEMP_old :: string where "TOPIC_TEMP_old = ''home/air/temperature''"
definition TOPIC_HUM_old :: string where "TOPIC_HUM_old = ''home/air/humidity''"
definition TOPIC_CO2_old :: string where "TOPIC_CO2_old = ''home/air/co2_eq_ppm''"

definition latestAirData_old :: store where
  "latestAirData_old = Map.empty(
     ''temperature'' \<mapsto> JNull,
     ''humidity'' \<mapsto> JNull,
     ''co2_eq_ppm'' \<mapsto> JNull,
     ''timestamp'' \<mapsto> JNull)"

definition on_message_old ::
  "platform \<Rightarrow> string \<Rightarrow> string \<Rightarrow> string \<Rightarrow> store \<Rightarrow> exn + store" where
  "on_message_old P now topic messageBuffer s =
     (case ToNumber P (JStr messageBuffer) of
        Inl e \<Rightarrow> Inl e
      | Inr val \<Rightarrow>
          if isNaN val then Inr s
          else if topic = TOPIC_TEMP_old
            then Inr (s(''temperature'' \<mapsto> JNum val, ''timestamp'' \<mapsto> JStr now))
          else if topic = TOPIC_HUM_old
            then Inr (s(''humidity'' \<mapsto> JNum val, ''timestamp'' \<mapsto> JStr now))
          else if topic = TOPIC_CO2_old
            then Inr (s(''co2_eq_ppm'' \<mapsto> JNum val, ''timestamp'' \<mapsto> JStr now))
          else Inr s)"

section \<open>A platform given by tables\<close>

text \<open>
  For running the handler on concrete payloads: \<^verbatim>\<open>JSON.parse\<close> and the conversion
  of a string to a number are read off two finite tables. A payload that is not in the
  first table does not parse as JSON, one that is not in the second is not a number. The
  payloads of the tables are text of the characters with codes up to 255; of these,
  \<^verbatim>\<open>trim\<close> strips tab, line feed, vertical tab, form feed, carriage return, space
  and the no-break space.
\<close>

definition is_space :: "char \<Rightarrow> bool" where
  "is_space c = ((of_char c :: nat) \<in> {9, 10, 11, 12, 13, 32, 160})"

definition strip_spaces :: "string \<Rightarrow> string" where
  "strip_spaces s = rev (dropWhile is_space (rev (dropWhile is_space s)))"

definition table_platform :: "(string \<times> json) list \<Rightarrow> (string \<times> jsnum) list \<Rightarrow> platform" where
  "table_platform parses numbers =
     \<lparr>String_trim = strip_spaces,
      JSON_parse = map_of parses,
      StringToNumber = (\<lambda>s. case map_of numbers s of Some n \<Rightarrow> n | None \<Rightarrow> NaN),
      NumberToString = (\<lambda>n. case n of Fin q \<Rightarrow> ''finite'' | _ \<Rightarrow> ''NaN'')\<rparr>"

section \<open>The HTTP routes\<close>

text \<open>
  \<^verbatim>\<open>res.json(body)\<close> is \<^verbatim>\<open>JSON.stringify\<close>: a property whose value is
  \<^verbatim>\<open>undefined\<close> is left out, and a number that is not finite is written \<^verbatim>\<open>null\<close>.
  The body is the map of the members of the JSON object sent.
\<close>

fun stringify_value :: "json \<Rightarrow> json" where
  "stringify_value (JNum (Fin q)) = JNum (Fin q)"
| "stringify_value (JNum n) = JNull"
| "stringify_value v = v"

definition res_json :: "store \<Rightarrow> store" where
  "res_json body = (\<lambda>k. map_option stringify_value (body k))"

definition get_latest :: "store \<Rightarrow> store" where
  "get_latest s = res_json s"

definition get_temperature :: "store \<Rightarrow> store" where
  "get_temperature s =
     res_json (Map.empty(''temperature'' := s ''temperature'', ''timestamp'' := s ''timestamp''))"

definition get_humidity :: "store \<Rightarrow> store" where
  "get_humidity s =
     res_json (Map.empty(''humidity'' := s ''humidity'', ''timestamp'' := s ''timestamp''))"

definition get_co2 :: "store \<Rightarrow> store" where
  "get_co2 s =
     res_json (Map.empty(''co2_eq_ppm'' := s ''co2_eq_ppm'', ''timestamp'' := s ''timestamp''))"

section \<open>Notions used in the statements\<close>

text \<open>
  The field of the store that the try block writes for each key of the parsed object it
  reads (lines 86 to 121 of server.js).
\<close>

definition canonical_field :: "string \<Rightarrow> string option" where
  "canonical_field key =
     (if key = ''temperature'' then Some ''temperature''
      else if key = ''humidity'' then Some ''humidity''
      else if key = ''gas_mq135'' \<or> key = ''co2_eq_ppm'' then Some ''co2_eq_ppm''
      else if key = ''relay_pin'' \<or> key = ''state'' then Some ''relay_pin''
      else if key = ''status'' then Some ''device_status''
      else None)"

text \<open>
  The representations of a relay state that the specification calls recognised: a
  boolean, the numbers 0 and 1, and the strings ON, OFF, 0 and 1 in any case. This
  definition follows the words of the specification, not the code.
\<close>

fun recognised_relay :: "json \<Rightarrow> bool" where
  "recognised_relay (JBool b) = True"
| "recognised_relay (JNum n) = (n = Fin 0 \<or> n = Fin 1)"
| "recognised_relay (JStr str) = (toUpperCase str \<in> {''ON'', ''OFF'', ''0'', ''1''})"
| "recognised_relay v = False"

fun is_string :: "json \<Rightarrow> bool" where
  "is_string (JStr str) = True"
| "is_string v = False"

text \<open>The handler accepts a message when it ends with one of its three update lines.\<close>

fun accepted :: "outcome \<Rightarrow> bool" where
  "accepted UpdatedEsp32 = True"
| "accepted UpdatedEsp32Numeric = True"
| "accepted UpdatedNumeric = True"
| "accepted IgnoredEsp32 = False"
| "accepted IgnoredNonNumeric = False"

text \<open>
  The try block runs to its end on a parsed value when the value is not \<^verbatim>\<open>null\<close>
  (reading a property of \<^verbatim>\<open>null\<close> throws) and every conversion the block performs
  returns: \<^verbatim>\<open>Number\<close> of the temperature, of the humidity and of the gas reading
  (under \<^verbatim>\<open>gas_mq135\<close> or else \<^verbatim>\<open>co2_eq_ppm\<close>), \<^verbatim>\<open>String\<close> of the state and
  of the status.
\<close>

fun own_prop :: "json \<Rightarrow> string \<Rightarrow> json option" where
  "own_prop (JObj kvs) k = map_of kvs k"
| "own_prop v k = None"

fun converts_number :: "platform \<Rightarrow> json option \<Rightarrow> bool" where
  "converts_number P None = True"
| "converts_number P (Some x) = (case ToNumber P x of Inl e \<Rightarrow> False | Inr n \<Rightarrow> True)"

fun converts_string :: "platform \<Rightarrow> json option \<Rightarrow> bool" where
  "converts_string P None = True"
| "converts_string P (Some x) = (case ToString P x of Inl e \<Rightarrow> False | Inr str \<Rightarrow> True)"

definition processed_to_end :: "platform \<Rightarrow> json \<Rightarrow> bool" where
  "processed_to_end P obj \<longleftrightarrow>
     obj \<noteq> JNull \<and>
     converts_number P (own_prop obj ''temperature'') \<and>
     converts_number P (own_prop obj ''humidity'') \<and>
     converts_number P
       (case own_prop obj ''gas_mq135'' of
          Some x \<Rightarrow> Some x
        | None \<Rightarrow> own_prop obj ''co2_eq_ppm'') \<and>
     converts_string P (own_prop obj ''state'') \<and>
     converts_string P (own_prop obj ''status'')"

text \<open>A statement keeps a property of the store when it holds again after it ran.\<close>

definition keeps :: "(store \<Rightarrow> bool) \<Rightarrow> (store \<Rightarrow> exn + store) \<Rightarrow> bool" where
  "keeps Q f \<longleftrightarrow> (\<forall>a b. Q a \<longrightarrow> f a = Inr b \<longrightarrow> Q b)"

text \<open>The writes the handler can make on a message with the given topic.\<close>

definition may_write :: "string \<Rightarrow> string \<Rightarrow> json \<Rightarrow> bool" where
  "may_write topic k v \<longleftrightarrow>
     (k \<in> {''temperature'', ''humidity'', ''co2_eq_ppm''} \<and> (\<exists>n. v = JNum n)) \<or>
     (k = ''relay_pin'' \<and> (v = JNum (Fin 1) \<or> v = JNum (Fin 0))) \<or>
     (k \<in> {''device_status'', ''last_topic'', ''timestamp''} \<and> (\<exists>str. v = JStr str)) \<or>
     (\<not> startsWith topic ''esp32/'' \<and> k = topic \<and> (\<exists>n. v = JNum n))"

section \<open>Statements of the try block\<close>

lemma keepsI: "(\<And>a b. Q a \<Longrightarrow> f a = Inr b \<Longrightarrow> Q b) \<Longrightarrow> keeps Q f"
  unfolding keeps_def by blast

text \<open>
  An invariant of the store that every statement of a block keeps is kept by the block,
  also when a statement throws halfway.
\<close>

lemma run_steps_keeps:
  "list_all (keeps Q) fs \<Longrightarrow> Q s \<Longrightarrow> Q (snd (run_steps fs s))"
proof (induction fs arbitrary: s)
  case Nil
  then show ?case by simp
next
  case (Cons f fs)
  have kf: "keeps Q f" and rest: "list_all (keeps Q) fs" using Cons.prems(1) by simp_all
  show ?case
  proof (cases "f s")
    case (Inl e)
    then show ?thesis using Cons.prems(2) by simp
  next
    case (Inr b)
    have "Q b" using kf Cons.prems(2) Inr unfolding keeps_def by blast
    then have "Q (snd (run_steps fs b))" using rest by (rule Cons.IH [rotated])
    then show ?thesis using Inr by simp
  qed
qed

lemma run_steps_append:
  "run_steps (fs @ gs) s =
     (case run_steps fs s of (None, s') \<Rightarrow> run_steps gs s' | (Some e, s') \<Rightarrow> (Some e, s'))"
  by (induction fs arbitrary: s) (simp_all split: sum.splits)

lemma get_prop_Some:
  "get_prop obj k = Inr (Some x) \<Longrightarrow> \<exists>kvs. obj = JObj kvs \<and> map_of kvs k = Some x"
  by (cases obj) simp_all

lemma and_then_Inr:
  "and_then r f = Inr y \<longleftrightarrow> (\<exists>x. r = Inr x \<and> f x = Inr y)"
  by (cases r) (simp_all add: and_then_def)

lemma map_of_key: "map_of kvs key = Some x \<Longrightarrow> key \<in> fst ` set kvs"
  by (metis map_of_eq_None_iff option.distinct(1))

lemma map_temperature_writes:
  assumes "map_temperature P obj s = Inr s'"
  shows "s' = s \<or> (\<exists>kvs x v. obj = JObj kvs \<and> map_of kvs ''temperature'' = Some x \<and>
           s' = s(''temperature'' \<mapsto> v) \<and> (\<exists>n. v = JNum n))"
proof -
  from assms obtain w where w: "get_prop obj ''temperature'' = Inr w"
    unfolding map_temperature_def and_then_Inr by blast
  show ?thesis
  proof (cases w)
    case None
    then show ?thesis using assms w by (simp add: map_temperature_def and_then_def)
  next
    case (Some x)
    then obtain kvs where "obj = JObj kvs" "map_of kvs ''temperature'' = Some x"
      using w get_prop_Some by blast
    then show ?thesis using assms by (auto simp: map_temperature_def and_then_Inr split: if_splits)
  qed
qed

lemma map_humidity_writes:
  assumes "map_humidity P obj s = Inr s'"
  shows "s' = s \<or> (\<exists>kvs x v. obj = JObj kvs \<and> map_of kvs ''humidity'' = Some x \<and>
           s' = s(''humidity'' \<mapsto> v) \<and> (\<exists>n. v = JNum n))"
proof -
  from assms obtain w where w: "get_prop obj ''humidity'' = Inr w"
    unfolding map_humidity_def and_then_Inr by blast
  show ?thesis
  proof (cases w)
    case None
    then show ?thesis using assms w by (simp add: map_humidity_def and_then_def)
  next
    case (Some x)
    then obtain kvs where "obj = JObj kvs" "map_of kvs ''humidity'' = Some x"
      using w get_prop_Some by blast
    then show ?thesis using assms by (auto simp: map_humidity_def and_then_Inr split: if_splits)
  qed
qed

lemma map_state_writes:
  assumes "map_state P obj s = Inr s'"
  shows "s' = s \<or> (\<exists>kvs x v. obj = JObj kvs \<and> map_of kvs ''state'' = Some x \<and>
           s' = s(''relay_pin'' \<mapsto> v) \<and> (v = JNum (Fin 1) \<or> v = JNum (Fin 0)))"
proof -
  from assms obtain w where w: "get_prop obj ''state'' = Inr w"
    unfolding map_state_def and_then_Inr by blast
  show ?thesis
  proof (cases w)
    case None
    then show ?thesis using assms w by (simp add: map_state_def and_then_def)
  next
    case (Some x)
    then obtain kvs where "obj = JObj kvs" "map_of kvs ''state'' = Some x"
      using w get_prop_Some by blast
    then show ?thesis using assms by (auto simp: map_state_def and_then_Inr split: if_splits)
  qed
qed

lemma map_status_writes:
  assumes "map_status P obj s = Inr s'"
  shows "s' = s \<or> (\<exists>kvs x v. obj = JObj kvs \<and> map_of kvs ''status'' = Some x \<and>
           s' = s(''device_status'' \<mapsto> v) \<and> (\<exists>str. v = JStr str))"
proof -
  from assms obtain w where w: "get_prop obj ''status'' = Inr w"
    unfolding map_status_def and_then_Inr by blast
  show ?thesis
  proof (cases w)
    case None
    then show ?thesis using assms w by (simp add: map_status_def and_then_def)
  next
    case (Some x)
    then obtain kvs where "obj = JObj kvs" "map_of kvs ''status'' = Some x"
      using w get_prop_Some by blast
    then show ?thesis using assms by (auto simp: map_status_def and_then_Inr split: if_splits)
  qed
qed

lemma map_gas_writes:
  assumes "map_gas P obj s = Inr s'"
  shows "s' = s \<or> (\<exists>kvs x v. obj = JObj kvs \<and>
           (map_of kvs ''gas_mq135'' = Some x \<or> map_of kvs ''co2_eq_ppm'' = Some x) \<and>
           s' = s(''co2_eq_ppm'' \<mapsto> v) \<and> (\<exists>n. v = JNum n))"
proof (cases obj)
  case (JObj kvs)
  show ?thesis
  proof (cases "map_of kvs ''gas_mq135''")
    case None
    show ?thesis
    proof (cases "map_of kvs ''co2_eq_ppm''")
      case None
      then show ?thesis using assms JObj \<open>map_of kvs ''gas_mq135'' = None\<close>
        by (simp add: map_gas_def and_then_def)
    next
      case (Some y)
      then show ?thesis using assms JObj \<open>map_of kvs ''gas_mq135'' = None\<close>
        by (auto simp: map_gas_def and_then_Inr split: if_splits)
    qed
  next
    case (Some x)
    then show ?thesis using assms JObj
      by (auto simp: map_gas_def and_then_Inr split: if_splits)
  qed
qed (use assms in \<open>simp_all add: map_gas_def and_then_def\<close>)

lemma map_relay_pin_unfold:
  assumes "map_of kvs ''relay_pin'' = Some x"
  shows "map_relay_pin (JObj kvs) s =
     (if x = JNum (Fin 1) \<or> x = JStr ''1'' \<or> x = JBool True
        then Inr (s(''relay_pin'' \<mapsto> JNum (Fin 1)))
      else if x = JNum (Fin 0) \<or> x = JStr ''0'' \<or> x = JBool False
        then Inr (s(''relay_pin'' \<mapsto> JNum (Fin 0)))
      else (case x of
              JStr str \<Rightarrow>
                Inr (s(''relay_pin'' \<mapsto>
                       JNum (if toUpperCase str = ''ON'' then Fin 1 else Fin 0)))
            | _ \<Rightarrow> Inr s))"
  using assms by (simp add: map_relay_pin_def and_then_def)

lemma map_relay_pin_values:
  assumes "map_relay_pin (JObj kvs) s = Inr s'" and "map_of kvs ''relay_pin'' = Some x"
  shows "s' = s \<or> s' = s(''relay_pin'' \<mapsto> JNum (Fin 1)) \<or> s' = s(''relay_pin'' \<mapsto> JNum (Fin 0))"
  using assms(1) unfolding map_relay_pin_unfold [OF assms(2)]
  by (cases x) (simp_all split: if_splits)

lemma map_relay_pin_writes:
  assumes "map_relay_pin obj s = Inr s'"
  shows "s' = s \<or> (\<exists>kvs x v. obj = JObj kvs \<and> map_of kvs ''relay_pin'' = Some x \<and>
           s' = s(''relay_pin'' \<mapsto> v) \<and> (v = JNum (Fin 1) \<or> v = JNum (Fin 0)))"
proof (cases obj)
  case (JObj kvs)
  show ?thesis
  proof (cases "map_of kvs ''relay_pin''")
    case None
    then show ?thesis using assms JObj by (simp add: map_relay_pin_def and_then_def)
  next
    case (Some x)
    then show ?thesis using map_relay_pin_values [of kvs s s' x] assms JObj by blast
  qed
qed (use assms in \<open>simp_all add: map_relay_pin_def and_then_def\<close>)

text \<open>A statement leaves a field alone when no key of that field is in the object.\<close>

lemma map_temperature_frame:
  assumes "map_temperature P (JObj kvs) a = Inr b" and "(map_of kvs ''temperature'' = None) \<or> k \<noteq> ''temperature''"
  shows "b k = a k"
  using map_temperature_writes [of P "JObj kvs" a b] assms by auto

lemma map_humidity_frame:
  assumes "map_humidity P (JObj kvs) a = Inr b" and "(map_of kvs ''humidity'' = None) \<or> k \<noteq> ''humidity''"
  shows "b k = a k"
  using map_humidity_writes [of P "JObj kvs" a b] assms by auto

lemma map_gas_frame:
  assumes "map_gas P (JObj kvs) a = Inr b" and "(map_of kvs ''gas_mq135'' = None \<and> map_of kvs ''co2_eq_ppm'' = None) \<or> k \<noteq> ''co2_eq_ppm''"
  shows "b k = a k"
  using map_gas_writes [of P "JObj kvs" a b] assms by auto

lemma map_relay_pin_frame:
  assumes "map_relay_pin (JObj kvs) a = Inr b" and "(map_of kvs ''relay_pin'' = None) \<or> k \<noteq> ''relay_pin''"
  shows "b k = a k"
  using map_relay_pin_writes [of "JObj kvs" a b] assms by auto

lemma map_state_frame:
  assumes "map_state P (JObj kvs) a = Inr b" and "(map_of kvs ''state'' = None) \<or> k \<noteq> ''relay_pin''"
  shows "b k = a k"
  using map_state_writes [of P "JObj kvs" a b] assms by auto

lemma map_status_frame:
  assumes "map_status P (JObj kvs) a = Inr b" and "(map_of kvs ''status'' = None) \<or> k \<noteq> ''device_status''"
  shows "b k = a k"
  using map_status_writes [of P "JObj kvs" a b] assms by auto

section \<open>The handler as a whole\<close>

lemma catch_block_ignores:
  "isNaN (StringToNumber P p) \<Longrightarrow> catch_block P now topic p s = (Inr IgnoredEsp32, s)"
  by (simp add: catch_block_def)

lemma catch_block_frame:
  assumes "k \<notin> {''temperature'', ''humidity'', ''co2_eq_ppm'', ''last_topic'', ''timestamp''}"
  shows "snd (catch_block P now topic p s) k = s k"
  using assms by (simp add: catch_block_def stamp_def)

lemma on_message_esp32:
  assumes "startsWith topic ''esp32/''"
  shows "on_message P now topic payload s =
     (case try_block P now topic (String_trim P payload) s of
        (None, s') \<Rightarrow> (Inr UpdatedEsp32, s')
      | (Some err, s') \<Rightarrow> catch_block P now topic (String_trim P payload) s')"
  using assms by (simp add: on_message_def Let_def)

lemma on_message_object:
  assumes "startsWith topic ''esp32/''" and "JSON_parse P (String_trim P payload) = Some obj"
    and "isNaN (StringToNumber P (String_trim P payload))"
  shows "snd (on_message P now topic payload s) =
     snd (run_steps (try_statements P now topic obj) s)"
  using assms
  by (simp add: on_message_esp32 try_block_def catch_block_ignores split: prod.splits option.splits)

lemma on_message_other:
  assumes "\<not> startsWith topic ''esp32/''"
  shows "on_message P now topic payload s =
     (if \<not> isNaN (StringToNumber P (String_trim P payload))
      then (Inr UpdatedNumeric,
            stamp topic now (set_computed s topic (JNum (StringToNumber P (String_trim P payload)))))
      else (Inr IgnoredNonNumeric, s))"
proof -
  have "topic \<noteq> TOPIC_TEMP" "topic \<noteq> TOPIC_HUM" "topic \<noteq> TOPIC_CO2"
    using assms by (auto simp: startsWith_def TOPIC_TEMP_def TOPIC_HUM_def TOPIC_CO2_def)
  then show ?thesis using assms by (simp add: on_message_def Let_def)
qed

text \<open>
  A property of the store that every write the handler can make keeps is kept by the
  handler.
\<close>

lemma keeps_closed:
  assumes upd: "\<And>a k v. Q a \<Longrightarrow> may_write topic k v \<Longrightarrow> Q (a(k \<mapsto> v))"
    and shape: "\<And>a b. f a = Inr b \<Longrightarrow> b = a \<or> (\<exists>k v. b = a(k \<mapsto> v) \<and> may_write topic k v)"
  shows "keeps Q f"
proof (rule keepsI)
  fix a b
  assume q: "Q a" and f: "f a = Inr b"
  from shape [OF f] show "Q b"
  proof
    assume "b = a"
    then show ?thesis using q by simp
  next
    assume "\<exists>k v. b = a(k \<mapsto> v) \<and> may_write topic k v"
    then obtain k v where b: "b = a(k \<mapsto> v)" and w: "may_write topic k v" by blast
    show ?thesis unfolding b using q w by (rule upd)
  qed
qed

lemma stamp_closed:
  assumes upd: "\<And>a k v. Q a \<Longrightarrow> may_write topic k v \<Longrightarrow> Q (a(k \<mapsto> v))" and "Q a"
  shows "Q (stamp topic now a)"
proof -
  have "may_write topic ''last_topic'' (JStr topic)" by (simp add: may_write_def)
  then have "Q (a(''last_topic'' \<mapsto> JStr topic))" using assms(2) upd by blast
  moreover have "may_write topic ''timestamp'' (JStr now)" by (simp add: may_write_def)
  ultimately have "Q (a(''last_topic'' \<mapsto> JStr topic, ''timestamp'' \<mapsto> JStr now))"
    using upd by blast
  then show ?thesis by (simp add: stamp_def)
qed

lemma try_statements_closed:
  assumes upd: "\<And>a k v. Q a \<Longrightarrow> may_write topic k v \<Longrightarrow> Q (a(k \<mapsto> v))"
  shows "list_all (keeps Q) (try_statements P now topic obj)"
proof -
  note kc = keeps_closed [where Q = Q and topic = topic, OF upd]
  have num: "\<And>n. may_write topic ''temperature'' (JNum n)"
      "\<And>n. may_write topic ''humidity'' (JNum n)"
      "\<And>n. may_write topic ''co2_eq_ppm'' (JNum n)"
    by (simp_all add: may_write_def)
  have rel: "may_write topic ''relay_pin'' (JNum (Fin 1))" "may_write topic ''relay_pin'' (JNum (Fin 0))"
    by (simp_all add: may_write_def)
  have str: "\<And>str. may_write topic ''device_status'' (JStr str)"
    by (simp add: may_write_def)
  have 1: "keeps Q (map_temperature P obj)"
  proof (rule kc)
    fix a b assume "map_temperature P obj a = Inr b"
    from map_temperature_writes [OF this] num(1)
    show "b = a \<or> (\<exists>k v. b = a(k \<mapsto> v) \<and> may_write topic k v)"
      by blast
  qed
  have 2: "keeps Q (map_humidity P obj)"
  proof (rule kc)
    fix a b assume "map_humidity P obj a = Inr b"
    from map_humidity_writes [OF this] num(2)
    show "b = a \<or> (\<exists>k v. b = a(k \<mapsto> v) \<and> may_write topic k v)"
      by blast
  qed
  have 3: "keeps Q (map_gas P obj)"
  proof (rule kc)
    fix a b assume "map_gas P obj a = Inr b"
    from map_gas_writes [OF this] num(3)
    show "b = a \<or> (\<exists>k v. b = a(k \<mapsto> v) \<and> may_write topic k v)"
      by blast
  qed
  have 4: "keeps Q (map_relay_pin obj)"
  proof (rule kc)
    fix a b assume "map_relay_pin obj a = Inr b"
    from map_relay_pin_writes [OF this] rel
    show "b = a \<or> (\<exists>k v. b = a(k \<mapsto> v) \<and> may_write topic k v)"
      by blast
  qed
  have 5: "keeps Q (map_state P obj)"
  proof (rule kc)
    fix a b assume "map_state P obj a = Inr b"
    from map_state_writes [OF this] rel
    show "b = a \<or> (\<exists>k v. b = a(k \<mapsto> v) \<and> may_write topic k v)"
      by blast
  qed
  have 6: "keeps Q (map_status P obj)"
  proof (rule kc)
    fix a b assume "map_status P obj a = Inr b"
    from map_status_writes [OF this] str
    show "b = a \<or> (\<exists>k v. b = a(k \<mapsto> v) \<and> may_write topic k v)"
      by blast
  qed
  have 7: "keeps Q (\<lambda>s. Inr (stamp topic now s))"
  proof (rule keepsI)
    fix a b assume "Q a" and "Inr (stamp topic now a) = (Inr b :: exn + store)"
    then show "Q b" using stamp_closed [where Q = Q and topic = topic, OF upd, of a now] by simp
  qed
  show ?thesis unfolding try_statements_def using 1 2 3 4 5 6 7 by simp
qed

lemma catch_block_closed:
  assumes upd: "\<And>a k v. Q a \<Longrightarrow> may_write topic k v \<Longrightarrow> Q (a(k \<mapsto> v))" and q: "Q a"
  shows "Q (snd (catch_block P now topic p a))"
proof (cases "isNaN (StringToNumber P p)")
  case True
  then show ?thesis using q by (simp add: catch_block_ignores)
next
  case False
  define n where "n = StringToNumber P p"
  define a' where "a' =
     (if topic = ''esp32/temperature'' then a(''temperature'' \<mapsto> JNum n)
      else if topic = ''esp32/humidity'' then a(''humidity'' \<mapsto> JNum n)
      else if topic = ''esp32/co2'' then a(''co2_eq_ppm'' \<mapsto> JNum n)
      else a)"
  have "may_write topic ''temperature'' (JNum n)" "may_write topic ''humidity'' (JNum n)"
      "may_write topic ''co2_eq_ppm'' (JNum n)"
    by (simp_all add: may_write_def)
  then have "Q (a(''temperature'' \<mapsto> JNum n))" "Q (a(''humidity'' \<mapsto> JNum n))"
      "Q (a(''co2_eq_ppm'' \<mapsto> JNum n))"
    using upd [OF q] by blast+
  then have "Q a'" using q unfolding a'_def by presburger
  then have "Q (stamp topic now a')"
    using stamp_closed [where Q = Q and topic = topic, OF upd, of a' now] by blast
  moreover have "snd (catch_block P now topic p a) = stamp topic now a'"
    using False by (simp add: catch_block_def a'_def n_def)
  ultimately show ?thesis by simp
qed

lemma try_block_closed:
  assumes upd: "\<And>a k v. Q a \<Longrightarrow> may_write topic k v \<Longrightarrow> Q (a(k \<mapsto> v))" and q: "Q s"
  shows "Q (snd (try_block P now topic p s))"
proof (cases "JSON_parse P p")
  case None
  then show ?thesis using q by (simp add: try_block_def)
next
  case (Some obj)
  have "list_all (keeps Q) (try_statements P now topic obj)"
    by (rule try_statements_closed [where Q = Q and topic = topic, OF upd])
  then have "Q (snd (run_steps (try_statements P now topic obj) s))"
    using q by (rule run_steps_keeps)
  then show ?thesis using Some by (simp add: try_block_def)
qed

lemma on_message_closed:
  assumes upd: "\<And>a k v. Q a \<Longrightarrow> may_write topic k v \<Longrightarrow> Q (a(k \<mapsto> v))" and q: "Q s"
  shows "Q (snd (on_message P now topic payload s))"
proof (cases "startsWith topic ''esp32/''")
  case True
  obtain r s1 where t: "try_block P now topic (String_trim P payload) s = (r, s1)"
    by (cases "try_block P now topic (String_trim P payload) s")
  have q1: "Q s1"
    using try_block_closed [where Q = Q and topic = topic, OF upd q, of P now "String_trim P payload"] t
    by simp
  show ?thesis
  proof (cases r)
    case None
    then show ?thesis using q1 t True by (simp add: on_message_esp32)
  next
    case (Some e)
    have "Q (snd (catch_block P now topic (String_trim P payload) s1))"
      using q1 catch_block_closed [where Q = Q and topic = topic, OF upd, of s1 P now "String_trim P payload"]
      by blast
    then show ?thesis using t True Some by (simp add: on_message_esp32)
  qed
next
  case False
  show ?thesis
  proof (cases "isNaN (StringToNumber P (String_trim P payload))")
    case True
    then show ?thesis using q False by (simp add: on_message_other)
  next
    case nan: False
    define n where "n = StringToNumber P (String_trim P payload)"
    have "may_write topic topic (JNum n)" using False by (simp add: may_write_def)
    then have "Q (s(topic \<mapsto> JNum n))" using q upd by blast
    then have "Q (set_computed s topic (JNum n))" using q by (simp add: set_computed_def)
    then have "Q (stamp topic now (set_computed s topic (JNum n)))"
      using stamp_closed [where Q = Q and topic = topic, OF upd, of "set_computed s topic (JNum n)" now]
      by blast
    then show ?thesis using False nan by (simp add: on_message_other n_def)
  qed
qed

section \<open>A structured update touches only the fields of its keys\<close>

lemma canonical_absent:
  assumes "\<forall>key \<in> fst ` set kvs. canonical_field key \<noteq> Some k"
    and "canonical_field key = Some k"
  shows "map_of kvs key = None"
proof (cases "map_of kvs key")
  case (Some x)
  then have "key \<in> fst ` set kvs" by (rule map_of_key)
  then show ?thesis using assms by blast
qed simp

text \<open>
  C7. A message on a topic under \<^verbatim>\<open>esp32/\<close> whose payload parses to a JSON object
  (such a text is no numeric literal) changes, besides \<^verbatim>\<open>timestamp\<close> and
  \<^verbatim>\<open>last_topic\<close>, only the fields that are the canonical field of a key the object
  has: every other property \<open>k\<close> of the store, data field or entry under a topic name,
  keeps its prior value. This holds for any subset of the recognised keys, and also when
  the object has further keys or a conversion throws halfway.
\<close>

theorem structured_update_frame:
  assumes "startsWith topic ''esp32/''"
    and "JSON_parse P (String_trim P payload) = Some (JObj kvs)"
    and "isNaN (StringToNumber P (String_trim P payload))"
    and "k \<noteq> ''timestamp''" and "k \<noteq> ''last_topic''"
    and "\<forall>key \<in> fst ` set kvs. canonical_field key \<noteq> Some k"
  shows "snd (on_message P now topic payload s) k = s k"
proof -
  note ab = canonical_absent [OF assms(6)]
  have c1: "map_of kvs ''temperature'' = None \<or> k \<noteq> ''temperature''"
    using ab [of "''temperature''"] by (auto simp: canonical_field_def)
  have c2: "map_of kvs ''humidity'' = None \<or> k \<noteq> ''humidity''"
    using ab [of "''humidity''"] by (auto simp: canonical_field_def)
  have c3: "(map_of kvs ''gas_mq135'' = None \<and> map_of kvs ''co2_eq_ppm'' = None) \<or>
      k \<noteq> ''co2_eq_ppm''"
    using ab [of "''gas_mq135''"] ab [of "''co2_eq_ppm''"] by (auto simp: canonical_field_def)
  have c4: "map_of kvs ''relay_pin'' = None \<or> k \<noteq> ''relay_pin''"
    using ab [of "''relay_pin''"] by (auto simp: canonical_field_def)
  have c5: "map_of kvs ''state'' = None \<or> k \<noteq> ''relay_pin''"
    using ab [of "''state''"] by (auto simp: canonical_field_def)
  have c6: "map_of kvs ''status'' = None \<or> k \<noteq> ''device_status''"
    using ab [of "''status''"] by (auto simp: canonical_field_def)
  let ?Q = "\<lambda>a. a k = s k"
  have k1: "keeps ?Q (map_temperature P (JObj kvs))"
    by (rule keepsI) (simp add: map_temperature_frame [OF _ c1])
  have k2: "keeps ?Q (map_humidity P (JObj kvs))"
    by (rule keepsI) (simp add: map_humidity_frame [OF _ c2])
  have k3: "keeps ?Q (map_gas P (JObj kvs))"
    by (rule keepsI) (simp add: map_gas_frame [OF _ c3])
  have k4: "keeps ?Q (map_relay_pin (JObj kvs))"
    by (rule keepsI) (simp add: map_relay_pin_frame [OF _ c4])
  have k5: "keeps ?Q (map_state P (JObj kvs))"
    by (rule keepsI) (simp add: map_state_frame [OF _ c5])
  have k6: "keeps ?Q (map_status P (JObj kvs))"
    by (rule keepsI) (simp add: map_status_frame [OF _ c6])
  have k7: "keeps ?Q (\<lambda>s. Inr (stamp topic now s))"
    using assms(4,5) by (intro keepsI) (auto simp: stamp_def)
  have "list_all (keeps ?Q) (try_statements P now topic (JObj kvs))"
    unfolding try_statements_def using k1 k2 k3 k4 k5 k6 k7 by simp
  then have "snd (run_steps (try_statements P now topic (JObj kvs)) s) k = s k"
    by (rule run_steps_keeps) simp
  then show ?thesis using on_message_object [OF assms(1,2,3)] by simp
qed

theorem structured_update_frame_witness:
  \<open>startsWith ''esp32/telemetry'' ''esp32/'' \<and>
   JSON_parse
     (table_platform
        [(''{"temperature": 23.5, "humidity": 60}'',
          JObj [(''temperature'', JNum (Fin (47 / 2))), (''humidity'', JNum (Fin 60))])] [])
     (String_trim
        (table_platform
           [(''{"temperature": 23.5, "humidity": 60}'',
             JObj [(''temperature'', JNum (Fin (47 / 2))), (''humidity'', JNum (Fin 60))])] [])
        ''{"temperature": 23.5, "humidity": 60}'') =
     Some (JObj [(''temperature'', JNum (Fin (47 / 2))), (''humidity'', JNum (Fin 60))]) \<and>
   snd (on_message
     (table_platform
        [(''{"temperature": 23.5, "humidity": 60}'',
          JObj [(''temperature'', JNum (Fin (47 / 2))), (''humidity'', JNum (Fin 60))])] [])
     ''2026-01-01T00:00:00.000Z'' ''esp32/telemetry''
     ''{"temperature": 23.5, "humidity": 60}''
     (latestAirData(''co2_eq_ppm'' \<mapsto> JNum (Fin 400)))) ''co2_eq_ppm'' =
     Some (JNum (Fin 400))\<close>
proof -
  let ?p = \<open>''{"temperature": 23.5, "humidity": 60}''\<close>
  let ?kvs = "[(''temperature'', JNum (Fin (47 / 2))), (''humidity'', JNum (Fin 60))]"
  let ?P = "table_platform [(?p, JObj ?kvs)] []"
  have h1: "startsWith ''esp32/telemetry'' ''esp32/''" by (simp add: startsWith_def)
  have h2: "JSON_parse ?P (String_trim ?P ?p) = Some (JObj ?kvs)"
    by (simp add: table_platform_def strip_spaces_def is_space_def)
  have h3: "isNaN (StringToNumber ?P (String_trim ?P ?p))"
    by (simp add: table_platform_def isNaN_def)
  have h6: "\<forall>key \<in> fst ` set ?kvs. canonical_field key \<noteq> Some ''co2_eq_ppm''"
    by (simp add: canonical_field_def)
  have "snd (on_message ?P ''2026-01-01T00:00:00.000Z'' ''esp32/telemetry'' ?p
          (latestAirData(''co2_eq_ppm'' \<mapsto> JNum (Fin 400)))) ''co2_eq_ppm'' =
        (latestAirData(''co2_eq_ppm'' \<mapsto> JNum (Fin 400))) ''co2_eq_ppm''"
    by (rule structured_update_frame [OF h1 h2 h3 _ _ h6]) simp_all
  then show ?thesis using h1 h2 by simp
qed

section \<open>The two keys of the gas reading\<close>

lemma run_steps_then_stamp:
  assumes "k \<noteq> ''timestamp''" and "k \<noteq> ''last_topic''"
  shows "snd (run_steps (fs @ [\<lambda>s. Inr (stamp topic now s)]) s) k = snd (run_steps fs s) k"
proof -
  obtain r s1 where r: "run_steps fs s = (r, s1)" by (cases "run_steps fs s")
  show ?thesis
    using assms by (cases r) (simp_all add: run_steps_append r stamp_def)
qed

lemma try_statements_split:
  "try_statements P now topic obj =
     [map_temperature P obj, map_humidity P obj, map_gas P obj,
      map_relay_pin obj, map_state P obj, map_status P obj] @
     [\<lambda>s. Inr (stamp topic now s)]"
  by (simp add: try_statements_def)

text \<open>
  C8. Two structured updates on topics under \<^verbatim>\<open>esp32/\<close> that differ only in the name
  of the key that carries the number \<open>v\<close>, \<^verbatim>\<open>gas_mq135\<close> in one and
  \<^verbatim>\<open>co2_eq_ppm\<close> in the other, leave the same value in \<^verbatim>\<open>co2_eq_ppm\<close> from every
  prior store. (The text of a JSON object is no numeric literal.)
\<close>

theorem gas_alias_equivalence:
  assumes "startsWith topic1 ''esp32/''" and "startsWith topic2 ''esp32/''"
    and "JSON_parse P (String_trim P payload1) = Some (JObj ((''gas_mq135'', JNum v) # rest))"
    and "JSON_parse P (String_trim P payload2) = Some (JObj ((''co2_eq_ppm'', JNum v) # rest))"
    and "map_of rest ''gas_mq135'' = None" and "map_of rest ''co2_eq_ppm'' = None"
    and "isNaN (StringToNumber P (String_trim P payload1))"
    and "isNaN (StringToNumber P (String_trim P payload2))"
  shows "snd (on_message P now1 topic1 payload1 s) ''co2_eq_ppm'' =
         snd (on_message P now2 topic2 payload2 s) ''co2_eq_ppm''"
proof -
  let ?o1 = "JObj ((''gas_mq135'', JNum v) # rest)"
  let ?o2 = "JObj ((''co2_eq_ppm'', JNum v) # rest)"
  have t: "map_temperature P ?o1 = map_temperature P ?o2"
    by (simp add: map_temperature_def fun_eq_iff)
  have h: "map_humidity P ?o1 = map_humidity P ?o2"
    by (simp add: map_humidity_def fun_eq_iff)
  have g: "map_gas P ?o1 = map_gas P ?o2"
    using assms(5,6) by (simp add: map_gas_def fun_eq_iff and_then_def)
  have r: "map_relay_pin ?o1 = map_relay_pin ?o2"
    by (simp add: map_relay_pin_def fun_eq_iff)
  have st: "map_state P ?o1 = map_state P ?o2"
    by (simp add: map_state_def fun_eq_iff)
  have su: "map_status P ?o1 = map_status P ?o2"
    by (simp add: map_status_def fun_eq_iff)
  let ?six = "[map_temperature P ?o2, map_humidity P ?o2, map_gas P ?o2,
      map_relay_pin ?o2, map_state P ?o2, map_status P ?o2]"
  have "snd (on_message P now1 topic1 payload1 s) ''co2_eq_ppm'' =
        snd (run_steps (?six @ [\<lambda>s. Inr (stamp topic1 now1 s)]) s) ''co2_eq_ppm''"
    using on_message_object [OF assms(1,3,7)] try_statements_split [of P now1 topic1 ?o1]
      t h g r st su by simp
  also have "\<dots> = snd (run_steps ?six s) ''co2_eq_ppm''"
    by (rule run_steps_then_stamp) simp_all
  also have "\<dots> = snd (run_steps (?six @ [\<lambda>s. Inr (stamp topic2 now2 s)]) s) ''co2_eq_ppm''"
    by (rule run_steps_then_stamp [symmetric]) simp_all
  also have "\<dots> = snd (on_message P now2 topic2 payload2 s) ''co2_eq_ppm''"
    using on_message_object [OF assms(2,4,8)] try_statements_split [of P now2 topic2 ?o2]
    by simp
  finally show ?thesis .
qed

theorem gas_alias_equivalence_witness:
  \<open>snd (on_message
     (table_platform
        [(''{"gas_mq135": 450}'', JObj [(''gas_mq135'', JNum (Fin 450))]),
         (''{"co2_eq_ppm": 450}'', JObj [(''co2_eq_ppm'', JNum (Fin 450))])] [])
     ''2026-01-01T00:00:00.000Z'' ''esp32/telemetry'' ''{"gas_mq135": 450}''
     latestAirData) ''co2_eq_ppm'' =
   snd (on_message
     (table_platform
        [(''{"gas_mq135": 450}'', JObj [(''gas_mq135'', JNum (Fin 450))]),
         (''{"co2_eq_ppm": 450}'', JObj [(''co2_eq_ppm'', JNum (Fin 450))])] [])
     ''2026-01-01T00:00:05.000Z'' ''esp32/state'' ''{"co2_eq_ppm": 450}''
     latestAirData) ''co2_eq_ppm'' \<and>
   snd (on_message
     (table_platform
        [(''{"gas_mq135": 450}'', JObj [(''gas_mq135'', JNum (Fin 450))]),
         (''{"co2_eq_ppm": 450}'', JObj [(''co2_eq_ppm'', JNum (Fin 450))])] [])
     ''2026-01-01T00:00:00.000Z'' ''esp32/telemetry'' ''{"gas_mq135": 450}''
     latestAirData) ''co2_eq_ppm'' = Some (JNum (Fin 450))\<close>
proof -
  let ?p1 = \<open>''{"gas_mq135": 450}''\<close>
  let ?p2 = \<open>''{"co2_eq_ppm": 450}''\<close>
  let ?P = "table_platform
        [(?p1, JObj [(''gas_mq135'', JNum (Fin 450))]),
         (?p2, JObj [(''co2_eq_ppm'', JNum (Fin 450))])] []"
  have h1: "startsWith ''esp32/telemetry'' ''esp32/''" by (simp add: startsWith_def)
  have h2: "startsWith ''esp32/state'' ''esp32/''" by (simp add: startsWith_def)
  have h3: "JSON_parse ?P (String_trim ?P ?p1) = Some (JObj ((''gas_mq135'', JNum (Fin 450)) # []))"
    by (simp add: table_platform_def strip_spaces_def is_space_def)
  have h4: "JSON_parse ?P (String_trim ?P ?p2) = Some (JObj ((''co2_eq_ppm'', JNum (Fin 450)) # []))"
    by (simp add: table_platform_def strip_spaces_def is_space_def)
  have h7: "isNaN (StringToNumber ?P (String_trim ?P ?p1))" by (simp add: table_platform_def isNaN_def)
  have h8: "isNaN (StringToNumber ?P (String_trim ?P ?p2))" by (simp add: table_platform_def isNaN_def)
  have e: "snd (on_message ?P ''2026-01-01T00:00:00.000Z'' ''esp32/telemetry'' ?p1 latestAirData)
             ''co2_eq_ppm'' =
           snd (on_message ?P ''2026-01-01T00:00:05.000Z'' ''esp32/state'' ?p2 latestAirData)
             ''co2_eq_ppm''"
    by (rule gas_alias_equivalence [OF h1 h2 h3 h4 _ _ h7 h8]) simp_all
  have v: "snd (on_message ?P ''2026-01-01T00:00:00.000Z'' ''esp32/telemetry'' ?p1 latestAirData)
             ''co2_eq_ppm'' = Some (JNum (Fin 450))"
    using h3 h7
    by (simp add: on_message_object [OF h1 h3 h7] try_statements_def
        map_temperature_def map_humidity_def map_gas_def map_relay_pin_def map_state_def
        map_status_def and_then_def stamp_def isNaN_def)
  show ?thesis using e v by simp
qed

section \<open>Stores reached by sequences of messages\<close>

lemma run_closed:
  assumes upd: "\<And>topic a k v. T topic \<Longrightarrow> Q a \<Longrightarrow> may_write topic k v \<Longrightarrow> Q (a(k \<mapsto> v))"
    and "list_all (\<lambda>(now, topic, payload). T topic) ms" and "Q s"
  shows "Q (run P ms s)"
  using assms(2,3)
proof (induction ms arbitrary: s)
  case Nil
  then show ?case by simp
next
  case (Cons m ms)
  obtain now topic payload where m: "m = (now, topic, payload)" by (cases m)
  have t: "T topic" and rest: "list_all (\<lambda>(now, topic, payload). T topic) ms"
    using Cons.prems(1) m by simp_all
  have "\<And>a k v. Q a \<Longrightarrow> may_write topic k v \<Longrightarrow> Q (a(k \<mapsto> v))"
    using upd [OF t] by blast
  then have "Q (snd (on_message P now topic payload s))"
    using Cons.prems(2) by (rule on_message_closed [where Q = Q and topic = topic])
  then have "Q (run P ms (snd (on_message P now topic payload s)))"
    using rest Cons.IH by blast
  then show ?case using m by simp
qed

lemma subscribed_other:
  assumes "subscribed topic" and "\<not> startsWith topic ''esp32/''"
  shows "topic \<noteq> ''relay_pin''"
  using assms by (auto simp: subscribed_def startsWith_def)

text \<open>
  C4. After any sequence of delivered messages (messages whose topics match the
  subscription), processed from the initial record, \<^verbatim>\<open>relay_pin\<close> is absent, 0 or 1.
\<close>

theorem relay_pin_binary:
  assumes "list_all (\<lambda>(now, topic, payload). subscribed topic) ms"
  shows "run P ms latestAirData ''relay_pin'' \<in> {None, Some (JNum (Fin 0)), Some (JNum (Fin 1))}"
proof -
  let ?Q = "\<lambda>a :: store. a ''relay_pin'' \<in> {None, Some (JNum (Fin 0)), Some (JNum (Fin 1))}"
  have upd: "\<And>topic a k v. subscribed topic \<Longrightarrow> ?Q a \<Longrightarrow> may_write topic k v \<Longrightarrow> ?Q (a(k \<mapsto> v))"
  proof -
    fix topic a k v
    assume s: "subscribed topic" and q: "?Q a" and w: "may_write topic k v"
    show "?Q (a(k \<mapsto> v))"
    proof (cases "k = ''relay_pin''")
      case False
      then show ?thesis using q by simp
    next
      case True
      then have "v = JNum (Fin 1) \<or> v = JNum (Fin 0)"
        using w subscribed_other [OF s] by (auto simp: may_write_def)
      then show ?thesis using True by auto
    qed
  qed
  have "?Q latestAirData" by (simp add: latestAirData_def)
  with upd assms show ?thesis
    by (rule run_closed [where Q = ?Q and T = subscribed])
qed

theorem relay_pin_binary_witness:
  \<open>list_all (\<lambda>(now, topic, payload). subscribed topic)
     [(''2026-01-01T00:00:00.000Z'', ''esp32/state'', ''{"state": "on"}''),
      (''2026-01-01T00:00:05.000Z'', ''home/air/relay_pin'', ''7'')] \<and>
   run (table_platform [(''{"state": "on"}'', JObj [(''state'', JStr ''on'')]), (''7'', JNum (Fin 7))]
          [(''7'', Fin 7)])
     [(''2026-01-01T00:00:00.000Z'', ''esp32/state'', ''{"state": "on"}''),
      (''2026-01-01T00:00:05.000Z'', ''home/air/relay_pin'', ''7'')]
     latestAirData ''relay_pin''
     \<in> {None, Some (JNum (Fin 0)), Some (JNum (Fin 1))} \<and>
   run (table_platform [(''{"state": "on"}'', JObj [(''state'', JStr ''on'')]), (''7'', JNum (Fin 7))]
          [(''7'', Fin 7)])
     [(''2026-01-01T00:00:00.000Z'', ''esp32/state'', ''{"state": "on"}''),
      (''2026-01-01T00:00:05.000Z'', ''home/air/relay_pin'', ''7'')]
     latestAirData ''relay_pin'' = Some (JNum (Fin 1))\<close>
proof -
  let ?p = \<open>''{"state": "on"}''\<close>
  let ?P = "table_platform [(?p, JObj [(''state'', JStr ''on'')]), (''7'', JNum (Fin 7))]
          [(''7'', Fin 7)]"
  let ?ms = "[(''2026-01-01T00:00:00.000Z'', ''esp32/state'', ?p),
      (''2026-01-01T00:00:05.000Z'', ''home/air/relay_pin'', ''7'')]"
  have h: "list_all (\<lambda>(now, topic, payload). subscribed topic) ?ms"
    by (simp add: subscribed_def startsWith_def)
  have h1: "startsWith ''esp32/state'' ''esp32/''" by (simp add: startsWith_def)
  have h2: "JSON_parse ?P (String_trim ?P ?p) = Some (JObj [(''state'', JStr ''on'')])"
    by (simp add: table_platform_def strip_spaces_def is_space_def)
  have h3: "isNaN (StringToNumber ?P (String_trim ?P ?p))"
    by (simp add: table_platform_def strip_spaces_def is_space_def isNaN_def)
  have on: "toUpperCase ''on'' = ''ON''" by (simp add: toUpperCase_def upper_char_def)
  have v: "run ?P ?ms latestAirData ''relay_pin'' = Some (JNum (Fin 1))"
    by (simp add: on_message_object [OF h1 h2 h3] try_statements_def on
        map_temperature_def map_humidity_def map_gas_def map_relay_pin_def map_state_def
        map_status_def and_then_def on_message_other startsWith_def stamp_def set_computed_def)
  show ?thesis using h v relay_pin_binary [OF h] by simp
qed

section \<open>What the routes send for a field that was never written\<close>

lemma run_keeps_declared:
  assumes "f \<in> dom latestAirData"
  shows "run P ms latestAirData f \<noteq> None"
proof -
  let ?Q = "\<lambda>a :: store. a f \<noteq> None"
  have upd: "\<And>topic a k v. True \<Longrightarrow> ?Q a \<Longrightarrow> may_write topic k v \<Longrightarrow> ?Q (a(k \<mapsto> v))"
    by simp
  have all: "list_all (\<lambda>(now, topic, payload). True) ms"
    by (simp add: list_all_iff split_def)
  have "?Q latestAirData" using assms by auto
  with upd all show ?thesis
    by (rule run_closed [where Q = ?Q and T = "\<lambda>topic. True"])
qed

text \<open>
  C3 as stated fails for \<^verbatim>\<open>relay_pin\<close>: the record does not declare it, so before the
  first message that writes it the body of \<^verbatim>\<open>/api/air/latest\<close> has no member of that
  name, rather than a member with the value null.
\<close>

theorem relay_pin_not_serialised_counterexample:
  "run (table_platform [] []) [] latestAirData ''relay_pin'' = None \<and>
   get_latest (run (table_platform [] []) [] latestAirData) ''relay_pin'' \<noteq> Some JNull \<and>
   get_latest (run (table_platform [] []) [] latestAirData) ''relay_pin'' = None"
  by (simp add: get_latest_def res_json_def latestAirData_def)

text \<open>
  C3, amended. In every store reached from the initial record, each of the six fields
  the record declares (temperature, humidity, co2_eq_ppm, timestamp, device_status,
  last_topic) that is absent, that is still null, is sent with the value null: by
  \<^verbatim>\<open>/api/air/latest\<close>, and by the route of a single reading for the two fields it
  sends. The field \<^verbatim>\<open>relay_pin\<close> is not declared: while it is absent the body of
  \<^verbatim>\<open>/api/air/latest\<close> has no such member.
\<close>

theorem absent_declared_field_null:
  assumes "f \<in> {''temperature'', ''humidity'', ''co2_eq_ppm'', ''timestamp'',
                 ''device_status'', ''last_topic''}"
    and "run P ms latestAirData f = None \<or> run P ms latestAirData f = Some JNull"
  shows "get_latest (run P ms latestAirData) f = Some JNull \<and>
     (f \<in> {''temperature'', ''timestamp''} \<longrightarrow>
        get_temperature (run P ms latestAirData) f = Some JNull) \<and>
     (f \<in> {''humidity'', ''timestamp''} \<longrightarrow>
        get_humidity (run P ms latestAirData) f = Some JNull) \<and>
     (f \<in> {''co2_eq_ppm'', ''timestamp''} \<longrightarrow>
        get_co2 (run P ms latestAirData) f = Some JNull) \<and>
     (run P ms latestAirData ''relay_pin'' = None \<longrightarrow>
        get_latest (run P ms latestAirData) ''relay_pin'' = None)"
proof -
  have "f \<in> dom latestAirData" using assms(1) by (auto simp: latestAirData_def)
  then have "run P ms latestAirData f \<noteq> None" by (rule run_keeps_declared)
  then have null: "run P ms latestAirData f = Some JNull" using assms(2) by auto
  show ?thesis
    using null
    by (auto simp: get_latest_def get_temperature_def get_humidity_def get_co2_def res_json_def)
qed

theorem absent_declared_field_null_witness:
  "''humidity'' \<in> {''temperature'', ''humidity'', ''co2_eq_ppm'', ''timestamp'',
                 ''device_status'', ''last_topic''} \<and>
   run (table_platform [] [(''21.5'', Fin (43 / 2))])
     [(''2026-01-01T00:00:00.000Z'', ''home/air/temperature'', ''21.5'')]
     latestAirData ''humidity'' = Some JNull \<and>
   get_latest (run (table_platform [] [(''21.5'', Fin (43 / 2))])
     [(''2026-01-01T00:00:00.000Z'', ''home/air/temperature'', ''21.5'')]
     latestAirData) ''humidity'' = Some JNull \<and>
   get_humidity (run (table_platform [] [(''21.5'', Fin (43 / 2))])
     [(''2026-01-01T00:00:00.000Z'', ''home/air/temperature'', ''21.5'')]
     latestAirData) ''humidity'' = Some JNull"
proof -
  let ?P = "table_platform [] [(''21.5'', Fin (43 / 2))]"
  let ?ms = "[(''2026-01-01T00:00:00.000Z'', ''home/air/temperature'', ''21.5'')]"
  have h1: "''humidity'' \<in> {''temperature'', ''humidity'', ''co2_eq_ppm'', ''timestamp'',
                 ''device_status'', ''last_topic''}" by simp
  have h2: "run ?P ?ms latestAirData ''humidity'' = Some JNull"
    by (simp add: on_message_other startsWith_def stamp_def set_computed_def latestAirData_def)
  have h2': "run ?P ?ms latestAirData ''humidity'' = None \<or>
      run ?P ?ms latestAirData ''humidity'' = Some JNull"
    using h2 by simp
  show ?thesis
    using h1 h2 absent_declared_field_null [OF h1 h2'] by simp
qed

section \<open>Relay values that are not recognised\<close>

lemma map_temperature_other:
  "map_temperature P obj a = Inr b \<Longrightarrow> k \<noteq> ''temperature'' \<Longrightarrow> b k = a k"
  using map_temperature_writes [of P obj a b] by auto

lemma map_humidity_other:
  "map_humidity P obj a = Inr b \<Longrightarrow> k \<noteq> ''humidity'' \<Longrightarrow> b k = a k"
  using map_humidity_writes [of P obj a b] by auto

lemma map_gas_other:
  "map_gas P obj a = Inr b \<Longrightarrow> k \<noteq> ''co2_eq_ppm'' \<Longrightarrow> b k = a k"
  using map_gas_writes [of P obj a b] by auto

lemma map_relay_pin_other:
  "map_relay_pin obj a = Inr b \<Longrightarrow> k \<noteq> ''relay_pin'' \<Longrightarrow> b k = a k"
  using map_relay_pin_writes [of obj a b] by auto

lemma map_state_other:
  "map_state P obj a = Inr b \<Longrightarrow> k \<noteq> ''relay_pin'' \<Longrightarrow> b k = a k"
  using map_state_writes [of P obj a b] by auto

lemma map_status_other:
  "map_status P obj a = Inr b \<Longrightarrow> k \<noteq> ''device_status'' \<Longrightarrow> b k = a k"
  using map_status_writes [of P obj a b] by auto

lemma toUpperCase_digit: "toUpperCase ''0'' = ''0''" "toUpperCase ''1'' = ''1''"
  by (simp_all add: toUpperCase_def upper_char_def)

lemma map_relay_pin_dropped:
  assumes "map_of kvs ''relay_pin'' = Some r" and "\<not> recognised_relay r" and "\<not> is_string r"
  shows "map_relay_pin (JObj kvs) a = Inr a"
  unfolding map_relay_pin_unfold [OF assms(1)] using assms(2,3)
  by (cases r) auto

lemma map_relay_pin_string:
  assumes "map_of kvs ''relay_pin'' = Some r" and "\<not> recognised_relay r" and "is_string r"
  shows "map_relay_pin (JObj kvs) a = Inr (a(''relay_pin'' \<mapsto> JNum (Fin 0)))"
proof -
  obtain str where r: "r = JStr str" using assms(3) by (cases r) simp_all
  have "str \<noteq> ''1''" "str \<noteq> ''0''" "toUpperCase str \<noteq> ''ON''"
    using assms(2) r toUpperCase_digit by auto
  then show ?thesis unfolding map_relay_pin_unfold [OF assms(1)] r by simp
qed

text \<open>
  C5 as stated fails: a string that is not a recognised representation is not dropped.
  With \<^verbatim>\<open>relay_pin\<close> at 1, the update \<^verbatim>\<open>{"relay_pin": "banana"}\<close> sets it to 0.
\<close>

theorem unrecognised_string_counterexample:
  \<open>\<not> recognised_relay (JStr ''banana'') \<and>
   (latestAirData(''relay_pin'' \<mapsto> JNum (Fin 1))) ''relay_pin'' = Some (JNum (Fin 1)) \<and>
   snd (on_message
     (table_platform [(''{"relay_pin": "banana"}'', JObj [(''relay_pin'', JStr ''banana'')])] [])
     ''2026-01-01T00:00:00.000Z'' ''esp32/state'' ''{"relay_pin": "banana"}''
     (latestAirData(''relay_pin'' \<mapsto> JNum (Fin 1)))) ''relay_pin'' = Some (JNum (Fin 0))\<close>
proof -
  let ?p = \<open>''{"relay_pin": "banana"}''\<close>
  let ?kvs = "[(''relay_pin'', JStr ''banana'')]"
  let ?P = "table_platform [(?p, JObj ?kvs)] []"
  have u: "\<not> recognised_relay (JStr ''banana'')"
    by (simp add: toUpperCase_def upper_char_def)
  have h1: "startsWith ''esp32/state'' ''esp32/''" by (simp add: startsWith_def)
  have h2: "JSON_parse ?P (String_trim ?P ?p) = Some (JObj ?kvs)"
    by (simp add: table_platform_def strip_spaces_def is_space_def)
  have h3: "isNaN (StringToNumber ?P (String_trim ?P ?p))"
    by (simp add: table_platform_def isNaN_def)
  have r: "map_relay_pin (JObj ?kvs) a = Inr (a(''relay_pin'' \<mapsto> JNum (Fin 0)))" for a
    by (rule map_relay_pin_string [OF _ u]) simp_all
  show ?thesis
    using u
    by (simp add: on_message_object [OF h1 h2 h3] try_statements_def r
        map_temperature_def map_humidity_def map_gas_def map_state_def
        map_status_def and_then_def stamp_def)
qed

text \<open>
  C5, amended. For a structured update on a topic under \<^verbatim>\<open>esp32/\<close> whose
  \<^verbatim>\<open>relay_pin\<close> value is not a recognised representation and that has no
  \<^verbatim>\<open>state\<close> key: when the value is not a string (null, a number other than 0 and 1, an
  array, an object) the handler leaves \<^verbatim>\<open>relay_pin\<close> as it was; when it is a string,
  the statement for the relay sets \<^verbatim>\<open>relay_pin\<close> to 0.
\<close>

theorem unrecognised_relay_value:
  assumes "startsWith topic ''esp32/''"
    and "JSON_parse P (String_trim P payload) = Some (JObj kvs)"
    and "map_of kvs ''relay_pin'' = Some r"
    and "\<not> recognised_relay r"
    and "map_of kvs ''state'' = None"
  shows "(\<not> is_string r \<longrightarrow>
            snd (on_message P now topic payload s) ''relay_pin'' = s ''relay_pin'') \<and>
         (is_string r \<longrightarrow>
            map_relay_pin (JObj kvs) s = Inr (s(''relay_pin'' \<mapsto> JNum (Fin 0))))"
proof (intro conjI impI)
  assume str: "is_string r"
  show "map_relay_pin (JObj kvs) s = Inr (s(''relay_pin'' \<mapsto> JNum (Fin 0)))"
    using assms(3,4) str by (rule map_relay_pin_string)
next
  assume nstr: "\<not> is_string r"
  let ?Q = "\<lambda>a. a ''relay_pin'' = s ''relay_pin''"
  let ?obj = "JObj kvs"
  have k1: "keeps ?Q (map_temperature P ?obj)"
    by (rule keepsI) (simp add: map_temperature_other)
  have k2: "keeps ?Q (map_humidity P ?obj)"
    by (rule keepsI) (simp add: map_humidity_other)
  have k3: "keeps ?Q (map_gas P ?obj)"
    by (rule keepsI) (simp add: map_gas_other)
  have k4: "keeps ?Q (map_relay_pin ?obj)"
    by (rule keepsI) (simp add: map_relay_pin_dropped [OF assms(3,4) nstr])
  have k5: "keeps ?Q (map_state P ?obj)"
    using assms(5) by (intro keepsI) (simp add: map_state_frame)
  have k6: "keeps ?Q (map_status P ?obj)"
    by (rule keepsI) (simp add: map_status_other)
  have k7: "keeps ?Q (\<lambda>s. Inr (stamp topic now s))"
    by (rule keepsI) (auto simp: stamp_def)
  have "list_all (keeps ?Q) (try_statements P now topic ?obj)"
    unfolding try_statements_def using k1 k2 k3 k4 k5 k6 k7 by simp
  then have t: "snd (run_steps (try_statements P now topic ?obj) s) ''relay_pin'' = s ''relay_pin''"
    by (rule run_steps_keeps) simp
  obtain e s1 where rs: "run_steps (try_statements P now topic ?obj) s = (e, s1)"
    by (cases "run_steps (try_statements P now topic ?obj) s")
  have s1: "s1 ''relay_pin'' = s ''relay_pin''" using t rs by simp
  have c: "snd (catch_block P now topic (String_trim P payload) s1) ''relay_pin'' = s1 ''relay_pin''"
    by (rule catch_block_frame) simp
  show "snd (on_message P now topic payload s) ''relay_pin'' = s ''relay_pin''"
    using s1 c rs assms(2)
    by (cases e) (simp_all add: on_message_esp32 [OF assms(1)] try_block_def)
qed

theorem unrecognised_relay_value_witness:
  \<open>startsWith ''esp32/state'' ''esp32/'' \<and>
   \<not> recognised_relay (JNum (Fin 5)) \<and> \<not> is_string (JNum (Fin 5)) \<and>
   snd (on_message
     (table_platform [(''{"relay_pin": 5}'', JObj [(''relay_pin'', JNum (Fin 5))])] [])
     ''2026-01-01T00:00:00.000Z'' ''esp32/state'' ''{"relay_pin": 5}''
     (latestAirData(''relay_pin'' \<mapsto> JNum (Fin 1)))) ''relay_pin'' = Some (JNum (Fin 1)) \<and>
   \<not> recognised_relay (JStr ''banana'') \<and> is_string (JStr ''banana'') \<and>
   map_relay_pin (JObj [(''relay_pin'', JStr ''banana'')])
     (latestAirData(''relay_pin'' \<mapsto> JNum (Fin 1))) =
     Inr (latestAirData(''relay_pin'' \<mapsto> JNum (Fin 0)))\<close>
proof -
  let ?p = \<open>''{"relay_pin": 5}''\<close>
  let ?P = "table_platform [(?p, JObj [(''relay_pin'', JNum (Fin 5))])] []"
  let ?q = \<open>''{"relay_pin": "banana"}''\<close>
  let ?R = "table_platform [(?q, JObj [(''relay_pin'', JStr ''banana'')])] []"
  let ?s = "latestAirData(''relay_pin'' \<mapsto> JNum (Fin 1))"
  have h1: "startsWith ''esp32/state'' ''esp32/''" by (simp add: startsWith_def)
  have h2: "JSON_parse ?P (String_trim ?P ?p) = Some (JObj [(''relay_pin'', JNum (Fin 5))])"
    by (simp add: table_platform_def strip_spaces_def is_space_def)
  have h3: "map_of [(''relay_pin'', JNum (Fin 5))] ''relay_pin'' = Some (JNum (Fin 5))" by simp
  have h4: "\<not> recognised_relay (JNum (Fin 5))" by simp
  have h5: "map_of [(''relay_pin'', JNum (Fin 5))] ''state'' = None" by simp
  have g2: "JSON_parse ?R (String_trim ?R ?q) = Some (JObj [(''relay_pin'', JStr ''banana'')])"
    by (simp add: table_platform_def strip_spaces_def is_space_def)
  have g3: "map_of [(''relay_pin'', JStr ''banana'')] ''relay_pin'' = Some (JStr ''banana'')" by simp
  have g4: "\<not> recognised_relay (JStr ''banana'')"
    by (simp add: toUpperCase_def upper_char_def)
  have g5: "map_of [(''relay_pin'', JStr ''banana'')] ''state'' = None" by simp
  show ?thesis
    using h1 h4 g4
      unrecognised_relay_value [OF h1 h2 h3 h4 h5, of "''2026-01-01T00:00:00.000Z''" ?s]
      unrecognised_relay_value [OF h1 g2 g3 g4 g5, of "''2026-01-01T00:00:00.000Z''" ?s]
    by simp
qed

section \<open>When the try block runs to its end\<close>

lemma get_prop_own:
  "obj \<noteq> JNull \<Longrightarrow> get_prop obj k = Inr (own_prop obj k)"
  by (cases obj) simp_all

lemma run_steps_None_iff:
  "list_all2 (\<lambda>f c. \<forall>a. (\<exists>b. f a = Inr b) = c) fs cs \<Longrightarrow>
     (fst (run_steps fs s) = None) = list_all (\<lambda>c. c) cs"
proof (induction fs cs arbitrary: s rule: list_all2_induct)
  case Nil
  then show ?case by simp
next
  case (Cons f fs c cs)
  show ?case
  proof (cases "f s")
    case (Inl e)
    then have "\<not> c" using Cons.hyps(1) by (metis sum.distinct(1))
    then show ?thesis using Inl by simp
  next
    case (Inr b)
    then have "c" using Cons.hyps(1) by blast
    then show ?thesis using Inr Cons.IH [of b] by simp
  qed
qed

lemma map_temperature_returns:
  assumes "obj \<noteq> JNull"
  shows "(\<exists>b. map_temperature P obj a = Inr b) = converts_number P (own_prop obj ''temperature'')"
  by (cases "own_prop obj ''temperature''")
    (auto simp: map_temperature_def and_then_def get_prop_own [OF assms] split: sum.splits)

lemma map_humidity_returns:
  assumes "obj \<noteq> JNull"
  shows "(\<exists>b. map_humidity P obj a = Inr b) = converts_number P (own_prop obj ''humidity'')"
  by (cases "own_prop obj ''humidity''")
    (auto simp: map_humidity_def and_then_def get_prop_own [OF assms] split: sum.splits)

lemma map_gas_returns:
  assumes "obj \<noteq> JNull"
  shows "(\<exists>b. map_gas P obj a = Inr b) =
     converts_number P
       (case own_prop obj ''gas_mq135'' of
          Some x \<Rightarrow> Some x
        | None \<Rightarrow> own_prop obj ''co2_eq_ppm'')"
  by (cases "own_prop obj ''gas_mq135''"; cases "own_prop obj ''co2_eq_ppm''")
    (auto simp: map_gas_def and_then_def get_prop_own [OF assms] split: sum.splits)

lemma map_relay_pin_returns:
  assumes "obj \<noteq> JNull"
  shows "\<exists>b. map_relay_pin obj a = Inr b"
proof (cases "own_prop obj ''relay_pin''")
  case None
  then show ?thesis by (simp add: map_relay_pin_def and_then_def get_prop_own [OF assms])
next
  case (Some r)
  then show ?thesis
    by (cases r) (simp_all add: map_relay_pin_def and_then_def get_prop_own [OF assms])
qed

lemma map_state_returns:
  assumes "obj \<noteq> JNull"
  shows "(\<exists>b. map_state P obj a = Inr b) = converts_string P (own_prop obj ''state'')"
  by (cases "own_prop obj ''state''")
    (auto simp: map_state_def and_then_def get_prop_own [OF assms] split: sum.splits)

lemma map_status_returns:
  assumes "obj \<noteq> JNull"
  shows "(\<exists>b. map_status P obj a = Inr b) = converts_string P (own_prop obj ''status'')"
  by (cases "own_prop obj ''status''")
    (auto simp: map_status_def and_then_def get_prop_own [OF assms] split: sum.splits)

lemma try_statements_complete:
  "(fst (run_steps (try_statements P now topic obj) s) = None) = processed_to_end P obj"
proof (cases "obj = JNull")
  case True
  then show ?thesis
    by (simp add: try_statements_def processed_to_end_def map_temperature_def and_then_def)
next
  case False
  let ?cs = "[converts_number P (own_prop obj ''temperature''),
      converts_number P (own_prop obj ''humidity''),
      converts_number P
        (case own_prop obj ''gas_mq135'' of
           Some x \<Rightarrow> Some x
         | None \<Rightarrow> own_prop obj ''co2_eq_ppm''),
      True,
      converts_string P (own_prop obj ''state''),
      converts_string P (own_prop obj ''status''),
      True]"
  have "list_all2 (\<lambda>f c. \<forall>a. (\<exists>b. f a = Inr b) = c) (try_statements P now topic obj) ?cs"
    unfolding try_statements_def
    using map_temperature_returns [OF False] map_humidity_returns [OF False]
      map_gas_returns [OF False] map_relay_pin_returns [OF False]
      map_state_returns [OF False] map_status_returns [OF False]
    by simp
  then have "(fst (run_steps (try_statements P now topic obj) s) = None) = list_all (\<lambda>c. c) ?cs"
    by (rule run_steps_None_iff)
  then show ?thesis using False by (simp add: processed_to_end_def)
qed

lemma try_block_complete:
  "(fst (try_block P now topic p s) = None) =
     (case JSON_parse P p of None \<Rightarrow> False | Some obj \<Rightarrow> processed_to_end P obj)"
  by (cases "JSON_parse P p") (simp_all add: try_block_def try_statements_complete)

section \<open>When the timestamp and the last topic are set\<close>

lemma mapping_statements_frame:
  assumes "k \<notin> {''temperature'', ''humidity'', ''co2_eq_ppm'', ''relay_pin'', ''device_status''}"
  shows "list_all (keeps (\<lambda>a. a k = c))
     [map_temperature P obj, map_humidity P obj, map_gas P obj,
      map_relay_pin obj, map_state P obj, map_status P obj]"
proof -
  have k1: "keeps (\<lambda>a. a k = c) (map_temperature P obj)"
    using assms by (intro keepsI) (simp add: map_temperature_other)
  have k2: "keeps (\<lambda>a. a k = c) (map_humidity P obj)"
    using assms by (intro keepsI) (simp add: map_humidity_other)
  have k3: "keeps (\<lambda>a. a k = c) (map_gas P obj)"
    using assms by (intro keepsI) (simp add: map_gas_other)
  have k4: "keeps (\<lambda>a. a k = c) (map_relay_pin obj)"
    using assms by (intro keepsI) (simp add: map_relay_pin_other)
  have k5: "keeps (\<lambda>a. a k = c) (map_state P obj)"
    using assms by (intro keepsI) (simp add: map_state_other)
  have k6: "keeps (\<lambda>a. a k = c) (map_status P obj)"
    using assms by (intro keepsI) (simp add: map_status_other)
  show ?thesis using k1 k2 k3 k4 k5 k6 by simp
qed

lemma try_block_stamps:
  assumes "try_block P now topic p s = (r, s1)"
  shows "case r of
           None \<Rightarrow> s1 ''timestamp'' = Some (JStr now) \<and> s1 ''last_topic'' = Some (JStr topic)
         | Some e \<Rightarrow> s1 ''timestamp'' = s ''timestamp'' \<and> s1 ''last_topic'' = s ''last_topic''"
proof (cases "JSON_parse P p")
  case None
  then show ?thesis using assms by (auto simp: try_block_def)
next
  case (Some obj)
  let ?six = "[map_temperature P obj, map_humidity P obj, map_gas P obj,
      map_relay_pin obj, map_state P obj, map_status P obj]"
  obtain r6 s6 where six: "run_steps ?six s = (r6, s6)" by (cases "run_steps ?six s")
  have "snd (run_steps ?six s) ''timestamp'' = s ''timestamp''"
    by (rule run_steps_keeps [OF mapping_statements_frame]) simp_all
  moreover have "snd (run_steps ?six s) ''last_topic'' = s ''last_topic''"
    by (rule run_steps_keeps [OF mapping_statements_frame]) simp_all
  ultimately have s6: "s6 ''timestamp'' = s ''timestamp''" "s6 ''last_topic'' = s ''last_topic''"
    using six by simp_all
  have "run_steps (try_statements P now topic obj) s =
      (case r6 of None \<Rightarrow> (None, stamp topic now s6) | Some e \<Rightarrow> (Some e, s6))"
    unfolding try_statements_split run_steps_append six by (cases r6) simp_all
  then have "try_block P now topic p s =
      (case r6 of None \<Rightarrow> (None, stamp topic now s6) | Some e \<Rightarrow> (Some e, s6))"
    using Some by (simp add: try_block_def)
  then show ?thesis using assms s6 by (cases r6) (auto simp: stamp_def)
qed

text \<open>
  C1 as stated fails: on a topic under \<^verbatim>\<open>esp32/\<close> every payload that parses as JSON
  and is processed to the end is stamped, whether or not a data field was written. The
  payload \<^verbatim>\<open>{}\<close> on the initial record sets \<^verbatim>\<open>timestamp\<close> and \<^verbatim>\<open>last_topic\<close>
  and leaves every data field null and \<^verbatim>\<open>relay_pin\<close> absent.
\<close>

theorem empty_object_stamped_counterexample:
  "on_message (table_platform [(''{}'', JObj [])] []) ''2026-01-01T00:00:00.000Z''
     ''esp32/telemetry'' ''{}'' latestAirData =
   (Inr UpdatedEsp32,
    latestAirData(''last_topic'' \<mapsto> JStr ''esp32/telemetry'',
                  ''timestamp'' \<mapsto> JStr ''2026-01-01T00:00:00.000Z''))"
  by (simp add: on_message_def try_block_def try_statements_def table_platform_def
      startsWith_def strip_spaces_def is_space_def map_temperature_def map_humidity_def map_gas_def
      map_relay_pin_def map_state_def map_status_def and_then_def stamp_def)

text \<open>
  The other direction fails as well, when a conversion throws after a field was written:
  \<^verbatim>\<open>{"temperature": 5, "state": {"toString": 1}}\<close> writes the temperature, then
  \<^verbatim>\<open>String(obj.state)\<close> throws a TypeError, and the message is ignored unstamped.
\<close>

lemma partial_write_not_stamped:
  \<open>on_message
     (table_platform
        [(''{"temperature": 5, "state": {"toString": 1}}'',
          JObj [(''temperature'', JNum (Fin 5)),
                (''state'', JObj [(''toString'', JNum (Fin 1))])])] [])
     ''2026-01-01T00:00:00.000Z'' ''esp32/telemetry''
     ''{"temperature": 5, "state": {"toString": 1}}'' latestAirData =
   (Inr IgnoredEsp32, latestAirData(''temperature'' \<mapsto> JNum (Fin 5)))\<close>
  by (simp add: on_message_def try_block_def try_statements_def catch_block_def
      table_platform_def startsWith_def strip_spaces_def is_space_def map_temperature_def
      map_humidity_def map_gas_def map_relay_pin_def map_state_def and_then_def isNaN_def)

text \<open>
  C1, amended. For every message, \<^verbatim>\<open>timestamp\<close> and \<^verbatim>\<open>last_topic\<close> are set to the
  current time and the topic if and only if the handler accepts the message, that is,
  ends with one of its three update lines; a message it ignores leaves both unchanged.
  Which messages are accepted is fixed by the topic and the payload alone.
  On a topic under \<^verbatim>\<open>esp32/\<close> the handler accepts a payload that parses as JSON and
  is processed to the end of the try block (the value is not null and no conversion
  throws), whether or not a data field was written, and otherwise a payload that is a
  number; it ignores every other payload.
  On a topic outside \<^verbatim>\<open>esp32/\<close> the handler accepts exactly the payloads that are
  numbers; an ignored message leaves the whole store unchanged, and an accepted message on
  a delivered topic writes a data field, the entry under the topic name. So there the
  equivalence of the claim holds.
\<close>

theorem stamps_follow_acceptance:
  "\<exists>out s'. on_message P now topic payload s = (Inr out, s') \<and>
     (if accepted out
      then s' ''timestamp'' = Some (JStr now) \<and> s' ''last_topic'' = Some (JStr topic)
      else s' ''timestamp'' = s ''timestamp'' \<and> s' ''last_topic'' = s ''last_topic'') \<and>
     (startsWith topic ''esp32/'' \<longrightarrow>
        (out = UpdatedEsp32) =
          (case JSON_parse P (String_trim P payload) of
             None \<Rightarrow> False
           | Some obj \<Rightarrow> processed_to_end P obj) \<and>
        (out = UpdatedEsp32Numeric) =
          (\<not> (case JSON_parse P (String_trim P payload) of
                None \<Rightarrow> False
              | Some obj \<Rightarrow> processed_to_end P obj) \<and>
           \<not> isNaN (StringToNumber P (String_trim P payload))) \<and>
        accepted out =
          ((case JSON_parse P (String_trim P payload) of
              None \<Rightarrow> False
            | Some obj \<Rightarrow> processed_to_end P obj) \<or>
           \<not> isNaN (StringToNumber P (String_trim P payload)))) \<and>
     (\<not> startsWith topic ''esp32/'' \<longrightarrow>
        accepted out = (\<not> isNaN (StringToNumber P (String_trim P payload))) \<and>
        (\<not> accepted out \<longrightarrow> s' = s) \<and>
        (accepted out \<and> subscribed topic \<longrightarrow>
           s' topic = Some (JNum (StringToNumber P (String_trim P payload)))))"
proof (cases "startsWith topic ''esp32/''")
  case True
  let ?end = "case JSON_parse P (String_trim P payload) of
                None \<Rightarrow> False
              | Some obj \<Rightarrow> processed_to_end P obj"
  obtain r s1 where t: "try_block P now topic (String_trim P payload) s = (r, s1)"
    by (cases "try_block P now topic (String_trim P payload) s")
  note st = try_block_stamps [OF t]
  have e: "(r = None) = ?end"
    using try_block_complete [of P now topic "String_trim P payload" s] t by simp
  show ?thesis
  proof (cases r)
    case None
    then have "on_message P now topic payload s = (Inr UpdatedEsp32, s1)"
      using t True by (simp add: on_message_esp32)
    then show ?thesis using st None True e by simp
  next
    case (Some err)
    show ?thesis
    proof (cases "isNaN (StringToNumber P (String_trim P payload))")
      case nan: True
      have "on_message P now topic payload s = (Inr IgnoredEsp32, s1)"
        using t True Some nan by (simp add: on_message_esp32 catch_block_ignores)
      then show ?thesis using st Some True e nan by simp
    next
      case False
      then obtain s2 where
        "on_message P now topic payload s = (Inr UpdatedEsp32Numeric, stamp topic now s2)"
        using t True Some by (simp add: on_message_esp32 catch_block_def)
      then show ?thesis using True Some e False by (simp add: stamp_def)
    qed
  qed
next
  case False
  have "subscribed topic \<Longrightarrow> topic \<notin> {''timestamp'', ''last_topic'', ''__proto__''}"
    using False by (auto simp: subscribed_def startsWith_def)
  then show ?thesis
    using False by (auto simp: on_message_other stamp_def set_computed_def)
qed

theorem stamps_follow_acceptance_witness:
  \<open>startsWith ''esp32/telemetry'' ''esp32/'' \<and>
   processed_to_end (table_platform [(''{"temperature": 23.5}'', JObj [(''temperature'', JNum (Fin (47 / 2)))])] [])
     (JObj [(''temperature'', JNum (Fin (47 / 2)))]) \<and>
   on_message (table_platform [(''{"temperature": 23.5}'', JObj [(''temperature'', JNum (Fin (47 / 2)))])] [])
     ''2026-01-01T00:00:00.000Z'' ''esp32/telemetry'' ''{"temperature": 23.5}'' latestAirData =
   (Inr UpdatedEsp32,
    latestAirData(''temperature'' \<mapsto> JNum (Fin (47 / 2)),
                  ''last_topic'' \<mapsto> JStr ''esp32/telemetry'',
                  ''timestamp'' \<mapsto> JStr ''2026-01-01T00:00:00.000Z'')) \<and>
   (\<exists>out s'.
      on_message (table_platform [(''{"temperature": 23.5}'', JObj [(''temperature'', JNum (Fin (47 / 2)))])] [])
        ''2026-01-01T00:00:00.000Z'' ''esp32/telemetry'' ''{"temperature": 23.5}'' latestAirData =
        (Inr out, s') \<and>
      out = UpdatedEsp32 \<and> accepted out \<and>
      s' ''timestamp'' = Some (JStr ''2026-01-01T00:00:00.000Z'') \<and>
      s' ''last_topic'' = Some (JStr ''esp32/telemetry'')) \<and>
   on_message (table_platform [] []) ''2026-01-01T00:00:00.000Z''
     ''esp32/telemetry'' ''not json'' latestAirData = (Inr IgnoredEsp32, latestAirData) \<and>
   subscribed ''home/air/temperature'' \<and>
   (\<exists>out s'. on_message (table_platform [] [(''21.5'', Fin (43 / 2))])
        ''2026-01-01T00:00:00.000Z'' ''home/air/temperature'' ''21.5'' latestAirData =
        (Inr out, s') \<and>
      out = UpdatedNumeric \<and>
      s' ''timestamp'' = Some (JStr ''2026-01-01T00:00:00.000Z'') \<and>
      s' ''home/air/temperature'' = Some (JNum (Fin (43 / 2))))\<close>
proof -
  let ?p = \<open>''{"temperature": 23.5}''\<close>
  let ?obj = "JObj [(''temperature'', JNum (Fin (47 / 2)))]"
  let ?E = "table_platform [(?p, ?obj)] []"
  let ?P = "table_platform [] [(''21.5'', Fin (43 / 2))]"
  let ?now = "''2026-01-01T00:00:00.000Z''"
  have h1: "startsWith ''esp32/telemetry'' ''esp32/''" by (simp add: startsWith_def)
  have h2: "JSON_parse ?E (String_trim ?E ?p) = Some ?obj"
    by (simp add: table_platform_def strip_spaces_def is_space_def)
  have h3: "isNaN (StringToNumber ?E (String_trim ?E ?p))"
    by (simp add: table_platform_def isNaN_def)
  have pe: "processed_to_end ?E ?obj" by (simp add: processed_to_end_def)
  have e1: "on_message ?E ?now ''esp32/telemetry'' ?p latestAirData =
    (Inr UpdatedEsp32,
     latestAirData(''temperature'' \<mapsto> JNum (Fin (47 / 2)),
                  ''last_topic'' \<mapsto> JStr ''esp32/telemetry'',
                  ''timestamp'' \<mapsto> JStr ?now))"
    using h2
    by (simp add: on_message_esp32 [OF h1] try_block_def try_statements_def
        map_temperature_def map_humidity_def map_gas_def map_relay_pin_def map_state_def
        map_status_def and_then_def stamp_def isNaN_def)
  have e2: "on_message (table_platform [] []) ?now ''esp32/telemetry'' ''not json'' latestAirData =
      (Inr IgnoredEsp32, latestAirData)"
    by (simp add: on_message_esp32 [OF h1] try_block_def catch_block_def table_platform_def
        isNaN_def)
  have e3: "on_message ?P ?now ''home/air/temperature'' ''21.5'' latestAirData =
    (Inr UpdatedNumeric,
     latestAirData(''home/air/temperature'' \<mapsto> JNum (Fin (43 / 2)),
                  ''last_topic'' \<mapsto> JStr ''home/air/temperature'',
                  ''timestamp'' \<mapsto> JStr ?now))"
    by (simp add: on_message_other startsWith_def table_platform_def strip_spaces_def
        is_space_def isNaN_def stamp_def set_computed_def)
  have s: "subscribed ''home/air/temperature''" by (simp add: subscribed_def startsWith_def)
  show ?thesis
    using h1 pe e1 e2 e3 s
      stamps_follow_acceptance [of ?E ?now "''esp32/telemetry''" ?p latestAirData]
      stamps_follow_acceptance [of ?P ?now "''home/air/temperature''" "''21.5''" latestAirData]
    by simp
qed

section \<open>Numeric payloads on topics outside the structured namespace\<close>

lemma other_topic_numeric:
  assumes "\<not> startsWith topic ''esp32/''"
    and "\<not> isNaN (StringToNumber P (String_trim P payload))"
    and "topic \<notin> {''timestamp'', ''last_topic'', ''__proto__''}"
  shows "on_message P now topic payload s =
           (Inr UpdatedNumeric,
            s(topic \<mapsto> JNum (StringToNumber P (String_trim P payload)),
              ''last_topic'' \<mapsto> JStr topic, ''timestamp'' \<mapsto> JStr now))"
  using assms by (simp add: on_message_other stamp_def set_computed_def)

lemma subscribed_not_reserved:
  assumes "subscribed topic" and "\<not> startsWith topic ''esp32/''"
  shows "topic \<notin> {''timestamp'', ''last_topic'', ''__proto__''}"
  using assms by (auto simp: subscribed_def startsWith_def)

text \<open>
  C10. For every delivered topic that does not start with \<^verbatim>\<open>esp32/\<close> and every
  payload that is a number, the handler stores the number under the key equal to the
  topic and sets \<^verbatim>\<open>last_topic\<close> and \<^verbatim>\<open>timestamp\<close>, and writes nothing else. The
  three constants \<^verbatim>\<open>TOPIC_TEMP\<close>, \<^verbatim>\<open>TOPIC_HUM\<close> and \<^verbatim>\<open>TOPIC_CO2\<close> start with
  \<^verbatim>\<open>esp32/\<close>, so the topic is none of them and the three branches that compare with
  them are never taken.
\<close>

theorem unknown_topic_numeric:
  assumes "subscribed topic"
    and "\<not> startsWith topic ''esp32/''"
    and "\<not> isNaN (StringToNumber P (String_trim P payload))"
  shows "on_message P now topic payload s =
           (Inr UpdatedNumeric,
            s(topic \<mapsto> JNum (StringToNumber P (String_trim P payload)),
              ''last_topic'' \<mapsto> JStr topic, ''timestamp'' \<mapsto> JStr now)) \<and>
         snd (on_message P now topic payload s) topic =
           Some (JNum (StringToNumber P (String_trim P payload))) \<and>
         snd (on_message P now topic payload s) ''last_topic'' = Some (JStr topic) \<and>
         snd (on_message P now topic payload s) ''timestamp'' = Some (JStr now) \<and>
         startsWith TOPIC_TEMP ''esp32/'' \<and> startsWith TOPIC_HUM ''esp32/'' \<and>
         startsWith TOPIC_CO2 ''esp32/'' \<and>
         topic \<notin> {TOPIC_TEMP, TOPIC_HUM, TOPIC_CO2}"
proof -
  have n: "topic \<notin> {''timestamp'', ''last_topic'', ''__proto__''}"
    using assms(1,2) by (rule subscribed_not_reserved)
  have c: "startsWith TOPIC_TEMP ''esp32/''" "startsWith TOPIC_HUM ''esp32/''"
      "startsWith TOPIC_CO2 ''esp32/''"
    by (simp_all add: startsWith_def TOPIC_TEMP_def TOPIC_HUM_def TOPIC_CO2_def)
  then have d: "topic \<notin> {TOPIC_TEMP, TOPIC_HUM, TOPIC_CO2}" using assms(2) by auto
  show ?thesis
    using n c d by (simp add: other_topic_numeric [OF assms(2,3) n])
qed

theorem unknown_topic_numeric_witness:
  "subscribed ''home/air/pressure'' \<and>
   \<not> startsWith ''home/air/pressure'' ''esp32/'' \<and>
   \<not> isNaN (StringToNumber (table_platform [] [(''1013'', Fin 1013)])
      (String_trim (table_platform [] [(''1013'', Fin 1013)]) ''1013'')) \<and>
   on_message (table_platform [] [(''1013'', Fin 1013)]) ''2026-01-01T00:00:00.000Z''
     ''home/air/pressure'' ''1013'' latestAirData =
   (Inr UpdatedNumeric,
    latestAirData(''home/air/pressure'' \<mapsto> JNum (Fin 1013),
                  ''last_topic'' \<mapsto> JStr ''home/air/pressure'',
                  ''timestamp'' \<mapsto> JStr ''2026-01-01T00:00:00.000Z'')) \<and>
   snd (on_message (table_platform [] [(''1013'', Fin 1013)]) ''2026-01-01T00:00:00.000Z''
     ''home/air/pressure'' ''1013'' latestAirData) ''home/air/pressure'' =
     Some (JNum (Fin 1013)) \<and>
   snd (on_message (table_platform [] [(''1013'', Fin 1013)]) ''2026-01-01T00:00:00.000Z''
     ''home/air/pressure'' ''1013'' latestAirData) ''temperature'' = Some JNull"
proof -
  let ?P = "table_platform [] [(''1013'', Fin 1013)]"
  have h1: "subscribed ''home/air/pressure''" by (simp add: subscribed_def startsWith_def)
  have h2: "\<not> startsWith ''home/air/pressure'' ''esp32/''" by (simp add: startsWith_def)
  have h3: "\<not> isNaN (StringToNumber ?P (String_trim ?P ''1013''))"
    by (simp add: table_platform_def strip_spaces_def is_space_def isNaN_def)
  have v: "StringToNumber ?P (String_trim ?P ''1013'') = Fin 1013"
    by (simp add: table_platform_def strip_spaces_def is_space_def)
  show ?thesis
    using h1 h2 h3 v
      unknown_topic_numeric [OF h1 h2 h3, of "''2026-01-01T00:00:00.000Z''" latestAirData]
    by (simp add: latestAirData_def)
qed

text \<open>
  The entries written under a topic name are properties of the same object as the fields
  of the record. The subscription delivers no topic that is named like one of them; for
  such a name the entry would not stay: under \<^verbatim>\<open>timestamp\<close> the time stamp written
  next replaces the number, and \<^verbatim>\<open>__proto__\<close> is never stored.
\<close>

lemma undelivered_topic_names:
  "\<not> subscribed ''timestamp'' \<and> \<not> subscribed ''__proto__'' \<and>
   snd (on_message (table_platform [] [(''5'', Fin 5)]) ''2026-01-01T00:00:00.000Z''
          ''timestamp'' ''5'' latestAirData) ''timestamp'' =
     Some (JStr ''2026-01-01T00:00:00.000Z'') \<and>
   snd (on_message (table_platform [] [(''5'', Fin 5)]) ''2026-01-01T00:00:00.000Z''
          ''__proto__'' ''5'' latestAirData) ''__proto__'' = None"
  by (simp add: on_message_other startsWith_def subscribed_def table_platform_def
      strip_spaces_def is_space_def isNaN_def stamp_def set_computed_def latestAirData_def)

section \<open>The configured topic for CO2\<close>

text \<open>
  C2 at its input. \<^verbatim>\<open>TOPIC_CO2\<close> is \<^verbatim>\<open>esp32/control/cmd\<close>, which starts with
  \<^verbatim>\<open>esp32/\<close>: the payload \<^verbatim>\<open>412\<close> is valid JSON, so the try block takes it, finds
  none of its keys in a number and only stamps the record. \<^verbatim>\<open>co2_eq_ppm\<close> stays null;
  the branch of line 153 that would store 412 is never reached.
\<close>

theorem legacy_co2_topic_not_stored:
  "on_message (table_platform [(''412'', JNum (Fin 412))] [(''412'', Fin 412)])
     ''2026-01-01T00:00:00.000Z'' TOPIC_CO2 ''412'' latestAirData =
   (Inr UpdatedEsp32,
    latestAirData(''last_topic'' \<mapsto> JStr ''esp32/control/cmd'',
                  ''timestamp'' \<mapsto> JStr ''2026-01-01T00:00:00.000Z'')) \<and>
   snd (on_message (table_platform [(''412'', JNum (Fin 412))] [(''412'', Fin 412)])
     ''2026-01-01T00:00:00.000Z'' TOPIC_CO2 ''412'' latestAirData) ''co2_eq_ppm'' = Some JNull \<and>
   snd (on_message (table_platform [(''412'', JNum (Fin 412))] [(''412'', Fin 412)])
     ''2026-01-01T00:00:00.000Z'' ''home/air/co2_eq_ppm'' ''412'' latestAirData) ''co2_eq_ppm'' =
     Some JNull"
  by (simp add: on_message_def try_block_def try_statements_def table_platform_def
      TOPIC_CO2_def TOPIC_TEMP_def TOPIC_HUM_def startsWith_def strip_spaces_def is_space_def
      map_temperature_def map_humidity_def map_gas_def map_relay_pin_def map_state_def
      map_status_def and_then_def stamp_def set_computed_def isNaN_def latestAirData_def)

text \<open>
  The same holds whatever the platform makes of the payload, as long as it does not parse
  to an object: on \<^verbatim>\<open>TOPIC_CO2\<close> no payload that is a plain number reaches
  \<^verbatim>\<open>co2_eq_ppm\<close>.
\<close>

lemma legacy_co2_topic_any_platform:
  assumes "\<forall>kvs. JSON_parse P (String_trim P payload) \<noteq> Some (JObj kvs)"
  shows "snd (on_message P now TOPIC_CO2 payload s) ''co2_eq_ppm'' = s ''co2_eq_ppm''"
proof -
  have esp: "startsWith TOPIC_CO2 ''esp32/''" by (simp add: startsWith_def TOPIC_CO2_def)
  have c: "snd (catch_block P now TOPIC_CO2 (String_trim P payload) a) ''co2_eq_ppm'' = a ''co2_eq_ppm''" for a
    by (simp add: catch_block_def stamp_def TOPIC_CO2_def)
  obtain r s1 where t: "try_block P now TOPIC_CO2 (String_trim P payload) s = (r, s1)"
    by (cases "try_block P now TOPIC_CO2 (String_trim P payload) s")
  have s1: "s1 ''co2_eq_ppm'' = s ''co2_eq_ppm''"
  proof (cases "JSON_parse P (String_trim P payload)")
    case None
    then show ?thesis using t by (simp add: try_block_def)
  next
    case (Some obj)
    then have no: "\<And>kvs. obj \<noteq> JObj kvs" using assms by simp
    let ?Q = "\<lambda>a. a ''co2_eq_ppm'' = s ''co2_eq_ppm''"
    have k1: "keeps ?Q (map_temperature P obj)"
      by (rule keepsI) (simp add: map_temperature_other)
    have k2: "keeps ?Q (map_humidity P obj)"
      by (rule keepsI) (simp add: map_humidity_other)
    have k3: "keeps ?Q (map_gas P obj)"
    proof (rule keepsI)
      fix a b assume "?Q a" and "map_gas P obj a = Inr b"
      then show "?Q b" using map_gas_writes [of P obj a b] no by auto
    qed
    have k4: "keeps ?Q (map_relay_pin obj)"
      by (rule keepsI) (simp add: map_relay_pin_other)
    have k5: "keeps ?Q (map_state P obj)"
      by (rule keepsI) (simp add: map_state_other)
    have k6: "keeps ?Q (map_status P obj)"
      by (rule keepsI) (simp add: map_status_other)
    have k7: "keeps ?Q (\<lambda>s. Inr (stamp TOPIC_CO2 now s))"
      by (rule keepsI) (auto simp: stamp_def)
    have "list_all (keeps ?Q) (try_statements P now TOPIC_CO2 obj)"
      unfolding try_statements_def using k1 k2 k3 k4 k5 k6 k7 by simp
    then have "?Q (snd (run_steps (try_statements P now TOPIC_CO2 obj) s))"
      by (rule run_steps_keeps) simp
    then show ?thesis using t Some by (simp add: try_block_def)
  qed
  show ?thesis
    using s1 c [of s1] t by (cases r) (simp_all add: on_message_esp32 [OF esp])
qed

text \<open>
  The earlier copy of the handler, whose constant for CO2 is \<^verbatim>\<open>home/air/co2_eq_ppm\<close>,
  does store the reading: there the payload \<^verbatim>\<open>412\<close> on that topic gives
  \<^verbatim>\<open>co2_eq_ppm\<close> the value 412.
\<close>

lemma old_handler_stores_co2:
  "on_message_old (table_platform [(''412'', JNum (Fin 412))] [(''412'', Fin 412)])
     ''2026-01-01T00:00:00.000Z'' TOPIC_CO2_old ''412'' latestAirData_old =
   Inr (latestAirData_old(''co2_eq_ppm'' \<mapsto> JNum (Fin 412),
                          ''timestamp'' \<mapsto> JStr ''2026-01-01T00:00:00.000Z''))"
  by (simp add: on_message_old_def table_platform_def isNaN_def
      TOPIC_CO2_old_def TOPIC_TEMP_old_def TOPIC_HUM_old_def)

section \<open>The handler never throws\<close>

text \<open>
  C9. For every topic and every payload, whatever \<^verbatim>\<open>JSON.parse\<close> and the number
  conversions do with it (malformed text, text that is neither JSON nor a number, JSON that
  parses to \<^verbatim>\<open>null\<close> or to a value that is no object), the handler ends with one
  of its five log lines and raises no exception: the SyntaxError of the parser and the
  TypeErrors of the property reads and conversions are all caught.
\<close>

theorem on_message_never_throws:
  "\<exists>out. fst (on_message P now topic payload s) = Inr out"
  by (simp add: on_message_def catch_block_def Let_def split: prod.splits option.splits)

text \<open>
  The payload \<^verbatim>\<open>null\<close> is valid JSON: reading \<^verbatim>\<open>obj.temperature\<close> throws a
  TypeError, the catch block finds that the payload is no number, and the message is ignored.
\<close>

lemma null_payload_caught:
  "try_block (table_platform [(''null'', JNull)] []) ''2026-01-01T00:00:00.000Z''
     ''esp32/telemetry'' ''null'' latestAirData = (Some TypeError, latestAirData) \<and>
   on_message (table_platform [(''null'', JNull)] []) ''2026-01-01T00:00:00.000Z''
     ''esp32/telemetry'' ''null'' latestAirData = (Inr IgnoredEsp32, latestAirData)"
  by (simp add: on_message_def try_block_def try_statements_def catch_block_def
      table_platform_def startsWith_def strip_spaces_def is_space_def map_temperature_def
      and_then_def isNaN_def)

section \<open>Payloads that are neither a number nor JSON\<close>

text \<open>
  C6. On every topic, a payload whose trimmed text \<^verbatim>\<open>JSON.parse\<close> rejects and that is
  not a number leaves the whole store as it was (timestamp, last_topic, every data field
  and every entry written under a topic name); the handler ends with one of its two
  warnings. The text is trimmed by the platform's own \<^verbatim>\<open>trim\<close>, whatever it strips.
\<close>

theorem unparsable_payload_ignored:
  assumes "JSON_parse P (String_trim P payload) = None"
    and "isNaN (StringToNumber P (String_trim P payload))"
  shows "on_message P now topic payload s =
     (Inr (if startsWith topic ''esp32/'' then IgnoredEsp32 else IgnoredNonNumeric), s)"
  using assms by (simp add: on_message_def catch_block_def try_block_def Let_def)

theorem unparsable_payload_ignored_witness:
  "JSON_parse (table_platform [] [])
     (String_trim (table_platform [] []) ''  not-a-number '') = None \<and>
   isNaN (StringToNumber (table_platform [] [])
     (String_trim (table_platform [] []) ''  not-a-number '')) \<and>
   on_message (table_platform [] []) ''2026-01-01T00:00:00.000Z'' ''esp32/temperature''
       ''  not-a-number '' latestAirData = (Inr IgnoredEsp32, latestAirData) \<and>
   on_message (table_platform [] []) ''2026-01-01T00:00:00.000Z'' ''home/air/temperature''
       ''  not-a-number '' latestAirData = (Inr IgnoredNonNumeric, latestAirData)"
proof -
  let ?P = "table_platform [] []"
  have a: "JSON_parse ?P (String_trim ?P ''  not-a-number '') = None"
    by (simp add: table_platform_def)
  have b: "isNaN (StringToNumber ?P (String_trim ?P ''  not-a-number ''))"
    by (simp add: table_platform_def isNaN_def)
  show ?thesis
    using a b
      unparsable_payload_ignored [OF a b, of "''2026-01-01T00:00:00.000Z''"
        "''esp32/temperature''" latestAirData]
      unparsable_payload_ignored [OF a b, of "''2026-01-01T00:00:00.000Z''"
        "''home/air/temperature''" latestAirData]
    by (simp add: startsWith_def)
qed

end
